theory Spec2Isabelle
  imports Complex_Main "HOL-Library.Log_Nat" "HOL-Library.Word"
begin

section \<open>GpuPreAgg (src/gpupreagg.c): aggregate decomposition catalog\<close>

text \<open>
  Object identifiers of the PostgreSQL catalogs are natural numbers. The named type and
  function identifiers used by gpupreagg.c come from PostgreSQL's headers
  (catalog/pg_type.h, utils/fmgroids.h); they are given here with the values of those
  headers.
\<close>

type_synonym Oid = nat

abbreviation (input) BOOLOID :: Oid where "BOOLOID \<equiv> 16"
abbreviation (input) INT8OID :: Oid where "INT8OID \<equiv> 20"
abbreviation (input) INT2OID :: Oid where "INT2OID \<equiv> 21"
abbreviation (input) INT4OID :: Oid where "INT4OID \<equiv> 23"
abbreviation (input) FLOAT4OID :: Oid where "FLOAT4OID \<equiv> 700"
abbreviation (input) FLOAT8OID :: Oid where "FLOAT8OID \<equiv> 701"
abbreviation (input) CASHOID :: Oid where "CASHOID \<equiv> 790"
abbreviation (input) DATEOID :: Oid where "DATEOID \<equiv> 1082"
abbreviation (input) TIMEOID :: Oid where "TIMEOID \<equiv> 1083"
abbreviation (input) TIMESTAMPOID :: Oid where "TIMESTAMPOID \<equiv> 1114"
abbreviation (input) TIMESTAMPTZOID :: Oid where "TIMESTAMPTZOID \<equiv> 1184"
abbreviation (input) NUMERICOID :: Oid where "NUMERICOID \<equiv> 1700"
abbreviation (input) ANYOID :: Oid where "ANYOID \<equiv> 2276"
abbreviation (input) INTERNALOID :: Oid where "INTERNALOID \<equiv> 2281"
abbreviation (input) InvalidOid :: Oid where "InvalidOid \<equiv> 0"
abbreviation (input) F_FLOAT4MUL :: Oid where "F_FLOAT4MUL \<equiv> 202"
abbreviation (input) F_FLOAT8MUL :: Oid where "F_FLOAT8MUL \<equiv> 216"
abbreviation (input) F_NUMERIC_MUL :: Oid where "F_NUMERIC_MUL \<equiv> 1726"

text \<open>Arguments of alternative functions (the ALTFUNC macros of gpupreagg.c).\<close>

abbreviation (input) ALTFUNC_GROUPING_KEY :: int where "ALTFUNC_GROUPING_KEY \<equiv> 50"
abbreviation (input) ALTFUNC_CONST_VALUE :: int where "ALTFUNC_CONST_VALUE \<equiv> 51"
abbreviation (input) ALTFUNC_CONST_NULL :: int where "ALTFUNC_CONST_NULL \<equiv> 52"
abbreviation (input) ALTFUNC_EXPR_NROWS :: int where "ALTFUNC_EXPR_NROWS \<equiv> 101"
abbreviation (input) ALTFUNC_EXPR_PMIN :: int where "ALTFUNC_EXPR_PMIN \<equiv> 102"
abbreviation (input) ALTFUNC_EXPR_PMAX :: int where "ALTFUNC_EXPR_PMAX \<equiv> 103"
abbreviation (input) ALTFUNC_EXPR_PSUM :: int where "ALTFUNC_EXPR_PSUM \<equiv> 104"
abbreviation (input) ALTFUNC_EXPR_PSUM_X2 :: int where "ALTFUNC_EXPR_PSUM_X2 \<equiv> 105"
abbreviation (input) ALTFUNC_EXPR_PCOV_X :: int where "ALTFUNC_EXPR_PCOV_X \<equiv> 106"
abbreviation (input) ALTFUNC_EXPR_PCOV_Y :: int where "ALTFUNC_EXPR_PCOV_Y \<equiv> 107"
abbreviation (input) ALTFUNC_EXPR_PCOV_X2 :: int where "ALTFUNC_EXPR_PCOV_X2 \<equiv> 108"
abbreviation (input) ALTFUNC_EXPR_PCOV_Y2 :: int where "ALTFUNC_EXPR_PCOV_Y2 \<equiv> 109"
abbreviation (input) ALTFUNC_EXPR_PCOV_XY :: int where "ALTFUNC_EXPR_PCOV_XY \<equiv> 110"

abbreviation (input) INT_MAX :: int where "INT_MAX \<equiv> 2147483647"
abbreviation (input) SHRT_MAX :: int where "SHRT_MAX \<equiv> 32767"

text \<open>
  The device-feature bits DEVKERNEL_NEEDS_* are macros of pg_strom.h; an entry's
  \<open>extra_flags\<close> is the list of the bits it sets (\<open>0\<close> in the source is the empty list).
\<close>

datatype devkernel_flag = DEVKERNEL_NEEDS_NUMERIC | DEVKERNEL_NEEDS_MONEY

text \<open>
  \<open>aggfunc_catalog_t\<close>. The C arrays \<open>aggfn_argtypes[4]\<close>, \<open>altfn_argtypes[8]\<close> and
  \<open>altfn_argexprs[8]\<close> are lists holding the initialisers the source writes; the code
  reads only the first \<open>aggfn_nargs\<close> (\<open>altfn_nargs\<close>) cells.
\<close>

record aggfunc_catalog_t =
  aggfn_name :: string
  aggfn_nargs :: nat
  aggfn_argtypes :: "Oid list"
  altfn_name :: string
  altfn_nargs :: nat
  altfn_argtypes :: "Oid list"
  altfn_argexprs :: "int list"
  extra_flags :: "devkernel_flag list"
  safety_limit :: int

text \<open>
  The table \<open>aggfunc_catalog[]\<close>, in the order of the source, with
  GPUPREAGG_SUPPORT_NUMERIC defined and the NOT_USED entries left out, as compiled.
\<close>

definition aggfunc_catalog :: "aggfunc_catalog_t list" where
  "aggfunc_catalog = [
    \<lparr>aggfn_name = ''avg'', aggfn_nargs = 1, aggfn_argtypes = [INT2OID],
      altfn_name = ''s:pavg_int4'', altfn_nargs = 2, altfn_argtypes = [INT8OID, INT8OID],
      altfn_argexprs = [ALTFUNC_EXPR_NROWS, ALTFUNC_EXPR_PSUM],
      extra_flags = [], safety_limit = INT_MAX\<rparr>,
    \<lparr>aggfn_name = ''avg'', aggfn_nargs = 1, aggfn_argtypes = [INT4OID],
      altfn_name = ''s:pavg_int4'', altfn_nargs = 2, altfn_argtypes = [INT8OID, INT8OID],
      altfn_argexprs = [ALTFUNC_EXPR_NROWS, ALTFUNC_EXPR_PSUM],
      extra_flags = [], safety_limit = INT_MAX\<rparr>,
    \<lparr>aggfn_name = ''avg'', aggfn_nargs = 1, aggfn_argtypes = [INT8OID],
      altfn_name = ''s:pavg_int8'', altfn_nargs = 3, altfn_argtypes = [INTERNALOID, INT8OID, INT8OID],
      altfn_argexprs = [ALTFUNC_CONST_NULL, ALTFUNC_EXPR_NROWS, ALTFUNC_EXPR_PSUM],
      extra_flags = [], safety_limit = INT_MAX\<rparr>,
    \<lparr>aggfn_name = ''avg'', aggfn_nargs = 1, aggfn_argtypes = [FLOAT4OID],
      altfn_name = ''s:pavg_fp8'', altfn_nargs = 2, altfn_argtypes = [INT8OID, FLOAT8OID],
      altfn_argexprs = [ALTFUNC_EXPR_NROWS, ALTFUNC_EXPR_PSUM],
      extra_flags = [], safety_limit = INT_MAX\<rparr>,
    \<lparr>aggfn_name = ''avg'', aggfn_nargs = 1, aggfn_argtypes = [FLOAT8OID],
      altfn_name = ''s:pavg_fp8'', altfn_nargs = 2, altfn_argtypes = [INT8OID, FLOAT8OID],
      altfn_argexprs = [ALTFUNC_EXPR_NROWS, ALTFUNC_EXPR_PSUM],
      extra_flags = [], safety_limit = INT_MAX\<rparr>,
    \<lparr>aggfn_name = ''avg'', aggfn_nargs = 1, aggfn_argtypes = [NUMERICOID],
      altfn_name = ''s:pavg_numeric'', altfn_nargs = 3, altfn_argtypes = [INTERNALOID, INT8OID, NUMERICOID],
      altfn_argexprs = [ALTFUNC_CONST_NULL, ALTFUNC_EXPR_NROWS, ALTFUNC_EXPR_PSUM],
      extra_flags = [DEVKERNEL_NEEDS_NUMERIC], safety_limit = 100\<rparr>,
    \<lparr>aggfn_name = ''count'', aggfn_nargs = 0, aggfn_argtypes = [],
      altfn_name = ''varref'', altfn_nargs = 1, altfn_argtypes = [INT8OID],
      altfn_argexprs = [ALTFUNC_EXPR_NROWS],
      extra_flags = [], safety_limit = INT_MAX\<rparr>,
    \<lparr>aggfn_name = ''count'', aggfn_nargs = 1, aggfn_argtypes = [ANYOID],
      altfn_name = ''varref'', altfn_nargs = 1, altfn_argtypes = [INT8OID],
      altfn_argexprs = [ALTFUNC_EXPR_NROWS],
      extra_flags = [], safety_limit = INT_MAX\<rparr>,
    \<lparr>aggfn_name = ''max'', aggfn_nargs = 1, aggfn_argtypes = [INT2OID],
      altfn_name = ''varref'', altfn_nargs = 1, altfn_argtypes = [INT2OID],
      altfn_argexprs = [ALTFUNC_EXPR_PMAX],
      extra_flags = [], safety_limit = INT_MAX\<rparr>,
    \<lparr>aggfn_name = ''max'', aggfn_nargs = 1, aggfn_argtypes = [INT4OID],
      altfn_name = ''varref'', altfn_nargs = 1, altfn_argtypes = [INT4OID],
      altfn_argexprs = [ALTFUNC_EXPR_PMAX],
      extra_flags = [], safety_limit = INT_MAX\<rparr>,
    \<lparr>aggfn_name = ''max'', aggfn_nargs = 1, aggfn_argtypes = [INT8OID],
      altfn_name = ''varref'', altfn_nargs = 1, altfn_argtypes = [INT8OID],
      altfn_argexprs = [ALTFUNC_EXPR_PMAX],
      extra_flags = [], safety_limit = INT_MAX\<rparr>,
    \<lparr>aggfn_name = ''max'', aggfn_nargs = 1, aggfn_argtypes = [FLOAT4OID],
      altfn_name = ''varref'', altfn_nargs = 1, altfn_argtypes = [FLOAT4OID],
      altfn_argexprs = [ALTFUNC_EXPR_PMAX],
      extra_flags = [], safety_limit = INT_MAX\<rparr>,
    \<lparr>aggfn_name = ''max'', aggfn_nargs = 1, aggfn_argtypes = [FLOAT8OID],
      altfn_name = ''varref'', altfn_nargs = 1, altfn_argtypes = [FLOAT8OID],
      altfn_argexprs = [ALTFUNC_EXPR_PMAX],
      extra_flags = [], safety_limit = INT_MAX\<rparr>,
    \<lparr>aggfn_name = ''max'', aggfn_nargs = 1, aggfn_argtypes = [NUMERICOID],
      altfn_name = ''varref'', altfn_nargs = 1, altfn_argtypes = [NUMERICOID],
      altfn_argexprs = [ALTFUNC_EXPR_PMAX],
      extra_flags = [DEVKERNEL_NEEDS_NUMERIC], safety_limit = INT_MAX\<rparr>,
    \<lparr>aggfn_name = ''max'', aggfn_nargs = 1, aggfn_argtypes = [CASHOID],
      altfn_name = ''varref'', altfn_nargs = 1, altfn_argtypes = [CASHOID],
      altfn_argexprs = [ALTFUNC_EXPR_PMAX],
      extra_flags = [DEVKERNEL_NEEDS_MONEY], safety_limit = INT_MAX\<rparr>,
    \<lparr>aggfn_name = ''max'', aggfn_nargs = 1, aggfn_argtypes = [DATEOID],
      altfn_name = ''varref'', altfn_nargs = 1, altfn_argtypes = [DATEOID],
      altfn_argexprs = [ALTFUNC_EXPR_PMAX],
      extra_flags = [], safety_limit = INT_MAX\<rparr>,
    \<lparr>aggfn_name = ''max'', aggfn_nargs = 1, aggfn_argtypes = [TIMEOID],
      altfn_name = ''varref'', altfn_nargs = 1, altfn_argtypes = [TIMEOID],
      altfn_argexprs = [ALTFUNC_EXPR_PMAX],
      extra_flags = [], safety_limit = INT_MAX\<rparr>,
    \<lparr>aggfn_name = ''max'', aggfn_nargs = 1, aggfn_argtypes = [TIMESTAMPOID],
      altfn_name = ''varref'', altfn_nargs = 1, altfn_argtypes = [TIMESTAMPOID],
      altfn_argexprs = [ALTFUNC_EXPR_PMAX],
      extra_flags = [], safety_limit = INT_MAX\<rparr>,
    \<lparr>aggfn_name = ''max'', aggfn_nargs = 1, aggfn_argtypes = [TIMESTAMPTZOID],
      altfn_name = ''varref'', altfn_nargs = 1, altfn_argtypes = [TIMESTAMPTZOID],
      altfn_argexprs = [ALTFUNC_EXPR_PMAX],
      extra_flags = [], safety_limit = INT_MAX\<rparr>,
    \<lparr>aggfn_name = ''min'', aggfn_nargs = 1, aggfn_argtypes = [INT2OID],
      altfn_name = ''varref'', altfn_nargs = 1, altfn_argtypes = [INT2OID],
      altfn_argexprs = [ALTFUNC_EXPR_PMIN],
      extra_flags = [], safety_limit = INT_MAX\<rparr>,
    \<lparr>aggfn_name = ''min'', aggfn_nargs = 1, aggfn_argtypes = [INT4OID],
      altfn_name = ''varref'', altfn_nargs = 1, altfn_argtypes = [INT4OID],
      altfn_argexprs = [ALTFUNC_EXPR_PMIN],
      extra_flags = [], safety_limit = INT_MAX\<rparr>,
    \<lparr>aggfn_name = ''min'', aggfn_nargs = 1, aggfn_argtypes = [INT8OID],
      altfn_name = ''varref'', altfn_nargs = 1, altfn_argtypes = [INT8OID],
      altfn_argexprs = [ALTFUNC_EXPR_PMIN],
      extra_flags = [], safety_limit = INT_MAX\<rparr>,
    \<lparr>aggfn_name = ''min'', aggfn_nargs = 1, aggfn_argtypes = [FLOAT4OID],
      altfn_name = ''varref'', altfn_nargs = 1, altfn_argtypes = [FLOAT4OID],
      altfn_argexprs = [ALTFUNC_EXPR_PMIN],
      extra_flags = [], safety_limit = INT_MAX\<rparr>,
    \<lparr>aggfn_name = ''min'', aggfn_nargs = 1, aggfn_argtypes = [FLOAT8OID],
      altfn_name = ''varref'', altfn_nargs = 1, altfn_argtypes = [FLOAT8OID],
      altfn_argexprs = [ALTFUNC_EXPR_PMIN],
      extra_flags = [], safety_limit = INT_MAX\<rparr>,
    \<lparr>aggfn_name = ''min'', aggfn_nargs = 1, aggfn_argtypes = [NUMERICOID],
      altfn_name = ''varref'', altfn_nargs = 1, altfn_argtypes = [NUMERICOID],
      altfn_argexprs = [ALTFUNC_EXPR_PMIN],
      extra_flags = [DEVKERNEL_NEEDS_NUMERIC], safety_limit = INT_MAX\<rparr>,
    \<lparr>aggfn_name = ''min'', aggfn_nargs = 1, aggfn_argtypes = [CASHOID],
      altfn_name = ''varref'', altfn_nargs = 1, altfn_argtypes = [CASHOID],
      altfn_argexprs = [ALTFUNC_EXPR_PMAX],
      extra_flags = [DEVKERNEL_NEEDS_MONEY], safety_limit = INT_MAX\<rparr>,
    \<lparr>aggfn_name = ''min'', aggfn_nargs = 1, aggfn_argtypes = [DATEOID],
      altfn_name = ''varref'', altfn_nargs = 1, altfn_argtypes = [DATEOID],
      altfn_argexprs = [ALTFUNC_EXPR_PMIN],
      extra_flags = [], safety_limit = INT_MAX\<rparr>,
    \<lparr>aggfn_name = ''min'', aggfn_nargs = 1, aggfn_argtypes = [TIMEOID],
      altfn_name = ''varref'', altfn_nargs = 1, altfn_argtypes = [TIMEOID],
      altfn_argexprs = [ALTFUNC_EXPR_PMIN],
      extra_flags = [], safety_limit = INT_MAX\<rparr>,
    \<lparr>aggfn_name = ''min'', aggfn_nargs = 1, aggfn_argtypes = [TIMESTAMPOID],
      altfn_name = ''varref'', altfn_nargs = 1, altfn_argtypes = [TIMESTAMPOID],
      altfn_argexprs = [ALTFUNC_EXPR_PMIN],
      extra_flags = [], safety_limit = INT_MAX\<rparr>,
    \<lparr>aggfn_name = ''min'', aggfn_nargs = 1, aggfn_argtypes = [TIMESTAMPTZOID],
      altfn_name = ''varref'', altfn_nargs = 1, altfn_argtypes = [TIMESTAMPTZOID],
      altfn_argexprs = [ALTFUNC_EXPR_PMIN],
      extra_flags = [], safety_limit = INT_MAX\<rparr>,
    \<lparr>aggfn_name = ''sum'', aggfn_nargs = 1, aggfn_argtypes = [INT2OID],
      altfn_name = ''varref'', altfn_nargs = 1, altfn_argtypes = [INT8OID],
      altfn_argexprs = [ALTFUNC_EXPR_PSUM],
      extra_flags = [], safety_limit = INT_MAX\<rparr>,
    \<lparr>aggfn_name = ''sum'', aggfn_nargs = 1, aggfn_argtypes = [INT4OID],
      altfn_name = ''varref'', altfn_nargs = 1, altfn_argtypes = [INT8OID],
      altfn_argexprs = [ALTFUNC_EXPR_PSUM],
      extra_flags = [], safety_limit = INT_MAX\<rparr>,
    \<lparr>aggfn_name = ''sum'', aggfn_nargs = 1, aggfn_argtypes = [INT8OID],
      altfn_name = ''s:psum'', altfn_nargs = 2, altfn_argtypes = [INTERNALOID, INT8OID],
      altfn_argexprs = [ALTFUNC_CONST_NULL, ALTFUNC_EXPR_PSUM],
      extra_flags = [], safety_limit = INT_MAX\<rparr>,
    \<lparr>aggfn_name = ''sum'', aggfn_nargs = 1, aggfn_argtypes = [FLOAT4OID],
      altfn_name = ''varref'', altfn_nargs = 1, altfn_argtypes = [FLOAT4OID],
      altfn_argexprs = [ALTFUNC_EXPR_PSUM],
      extra_flags = [], safety_limit = INT_MAX\<rparr>,
    \<lparr>aggfn_name = ''sum'', aggfn_nargs = 1, aggfn_argtypes = [FLOAT8OID],
      altfn_name = ''varref'', altfn_nargs = 1, altfn_argtypes = [FLOAT8OID],
      altfn_argexprs = [ALTFUNC_EXPR_PSUM],
      extra_flags = [], safety_limit = INT_MAX\<rparr>,
    \<lparr>aggfn_name = ''sum'', aggfn_nargs = 1, aggfn_argtypes = [NUMERICOID],
      altfn_name = ''s:psum'', altfn_nargs = 2, altfn_argtypes = [INTERNALOID, NUMERICOID],
      altfn_argexprs = [ALTFUNC_CONST_NULL, ALTFUNC_EXPR_PSUM],
      extra_flags = [DEVKERNEL_NEEDS_NUMERIC], safety_limit = 100\<rparr>,
    \<lparr>aggfn_name = ''sum'', aggfn_nargs = 1, aggfn_argtypes = [CASHOID],
      altfn_name = ''varref'', altfn_nargs = 1, altfn_argtypes = [CASHOID],
      altfn_argexprs = [ALTFUNC_EXPR_PSUM],
      extra_flags = [DEVKERNEL_NEEDS_MONEY], safety_limit = INT_MAX\<rparr>,
    \<lparr>aggfn_name = ''stddev'', aggfn_nargs = 1, aggfn_argtypes = [FLOAT4OID],
      altfn_name = ''s:pvariance'', altfn_nargs = 3, altfn_argtypes = [INT8OID, FLOAT8OID, FLOAT8OID],
      altfn_argexprs = [ALTFUNC_EXPR_NROWS, ALTFUNC_EXPR_PSUM, ALTFUNC_EXPR_PSUM_X2],
      extra_flags = [], safety_limit = SHRT_MAX\<rparr>,
    \<lparr>aggfn_name = ''stddev'', aggfn_nargs = 1, aggfn_argtypes = [FLOAT8OID],
      altfn_name = ''s:pvariance'', altfn_nargs = 3, altfn_argtypes = [INT8OID, FLOAT8OID, FLOAT8OID],
      altfn_argexprs = [ALTFUNC_EXPR_NROWS, ALTFUNC_EXPR_PSUM, ALTFUNC_EXPR_PSUM_X2],
      extra_flags = [], safety_limit = SHRT_MAX\<rparr>,
    \<lparr>aggfn_name = ''stddev_pop'', aggfn_nargs = 1, aggfn_argtypes = [FLOAT4OID],
      altfn_name = ''s:pvariance'', altfn_nargs = 3, altfn_argtypes = [INT8OID, FLOAT8OID, FLOAT8OID],
      altfn_argexprs = [ALTFUNC_EXPR_NROWS, ALTFUNC_EXPR_PSUM, ALTFUNC_EXPR_PSUM_X2],
      extra_flags = [], safety_limit = SHRT_MAX\<rparr>,
    \<lparr>aggfn_name = ''stddev_pop'', aggfn_nargs = 1, aggfn_argtypes = [FLOAT8OID],
      altfn_name = ''s:pvariance'', altfn_nargs = 3, altfn_argtypes = [INT8OID, FLOAT8OID, FLOAT8OID],
      altfn_argexprs = [ALTFUNC_EXPR_NROWS, ALTFUNC_EXPR_PSUM, ALTFUNC_EXPR_PSUM_X2],
      extra_flags = [], safety_limit = SHRT_MAX\<rparr>,
    \<lparr>aggfn_name = ''stddev_samp'', aggfn_nargs = 1, aggfn_argtypes = [FLOAT4OID],
      altfn_name = ''s:pvariance'', altfn_nargs = 3, altfn_argtypes = [INT8OID, FLOAT8OID, FLOAT8OID],
      altfn_argexprs = [ALTFUNC_EXPR_NROWS, ALTFUNC_EXPR_PSUM, ALTFUNC_EXPR_PSUM_X2],
      extra_flags = [], safety_limit = SHRT_MAX\<rparr>,
    \<lparr>aggfn_name = ''stddev_samp'', aggfn_nargs = 1, aggfn_argtypes = [FLOAT8OID],
      altfn_name = ''s:pvariance'', altfn_nargs = 3, altfn_argtypes = [INT8OID, FLOAT8OID, FLOAT8OID],
      altfn_argexprs = [ALTFUNC_EXPR_NROWS, ALTFUNC_EXPR_PSUM, ALTFUNC_EXPR_PSUM_X2],
      extra_flags = [], safety_limit = SHRT_MAX\<rparr>,
    \<lparr>aggfn_name = ''variance'', aggfn_nargs = 1, aggfn_argtypes = [FLOAT4OID],
      altfn_name = ''s:pvariance'', altfn_nargs = 3, altfn_argtypes = [INT8OID, FLOAT8OID, FLOAT8OID],
      altfn_argexprs = [ALTFUNC_EXPR_NROWS, ALTFUNC_EXPR_PSUM, ALTFUNC_EXPR_PSUM_X2],
      extra_flags = [], safety_limit = SHRT_MAX\<rparr>,
    \<lparr>aggfn_name = ''variance'', aggfn_nargs = 1, aggfn_argtypes = [FLOAT8OID],
      altfn_name = ''s:pvariance'', altfn_nargs = 3, altfn_argtypes = [INT8OID, FLOAT8OID, FLOAT8OID],
      altfn_argexprs = [ALTFUNC_EXPR_NROWS, ALTFUNC_EXPR_PSUM, ALTFUNC_EXPR_PSUM_X2],
      extra_flags = [], safety_limit = SHRT_MAX\<rparr>,
    \<lparr>aggfn_name = ''var_pop'', aggfn_nargs = 1, aggfn_argtypes = [FLOAT4OID],
      altfn_name = ''s:pvariance'', altfn_nargs = 3, altfn_argtypes = [INT8OID, FLOAT8OID, FLOAT8OID],
      altfn_argexprs = [ALTFUNC_EXPR_NROWS, ALTFUNC_EXPR_PSUM, ALTFUNC_EXPR_PSUM_X2],
      extra_flags = [], safety_limit = SHRT_MAX\<rparr>,
    \<lparr>aggfn_name = ''var_pop'', aggfn_nargs = 1, aggfn_argtypes = [FLOAT8OID],
      altfn_name = ''s:pvariance'', altfn_nargs = 3, altfn_argtypes = [INT8OID, FLOAT8OID, FLOAT8OID],
      altfn_argexprs = [ALTFUNC_EXPR_NROWS, ALTFUNC_EXPR_PSUM, ALTFUNC_EXPR_PSUM_X2],
      extra_flags = [], safety_limit = SHRT_MAX\<rparr>,
    \<lparr>aggfn_name = ''var_samp'', aggfn_nargs = 1, aggfn_argtypes = [FLOAT4OID],
      altfn_name = ''s:pvariance'', altfn_nargs = 3, altfn_argtypes = [INT8OID, FLOAT8OID, FLOAT8OID],
      altfn_argexprs = [ALTFUNC_EXPR_NROWS, ALTFUNC_EXPR_PSUM, ALTFUNC_EXPR_PSUM_X2],
      extra_flags = [], safety_limit = SHRT_MAX\<rparr>,
    \<lparr>aggfn_name = ''var_samp'', aggfn_nargs = 1, aggfn_argtypes = [FLOAT8OID],
      altfn_name = ''s:pvariance'', altfn_nargs = 3, altfn_argtypes = [INT8OID, FLOAT8OID, FLOAT8OID],
      altfn_argexprs = [ALTFUNC_EXPR_NROWS, ALTFUNC_EXPR_PSUM, ALTFUNC_EXPR_PSUM_X2],
      extra_flags = [], safety_limit = SHRT_MAX\<rparr>,
    \<lparr>aggfn_name = ''corr'', aggfn_nargs = 2, aggfn_argtypes = [FLOAT8OID, FLOAT8OID],
      altfn_name = ''s:pcovar'', altfn_nargs = 6, altfn_argtypes = [INT8OID, FLOAT8OID, FLOAT8OID, FLOAT8OID, FLOAT8OID, FLOAT8OID],
      altfn_argexprs = [ALTFUNC_EXPR_NROWS, ALTFUNC_EXPR_PCOV_X, ALTFUNC_EXPR_PCOV_X2, ALTFUNC_EXPR_PCOV_Y, ALTFUNC_EXPR_PCOV_Y2, ALTFUNC_EXPR_PCOV_XY],
      extra_flags = [], safety_limit = SHRT_MAX\<rparr>,
    \<lparr>aggfn_name = ''covar_pop'', aggfn_nargs = 2, aggfn_argtypes = [FLOAT8OID, FLOAT8OID],
      altfn_name = ''s:pcovar'', altfn_nargs = 6, altfn_argtypes = [INT8OID, FLOAT8OID, FLOAT8OID, FLOAT8OID, FLOAT8OID, FLOAT8OID],
      altfn_argexprs = [ALTFUNC_EXPR_NROWS, ALTFUNC_EXPR_PCOV_X, ALTFUNC_EXPR_PCOV_X2, ALTFUNC_EXPR_PCOV_Y, ALTFUNC_EXPR_PCOV_Y2, ALTFUNC_EXPR_PCOV_XY],
      extra_flags = [], safety_limit = SHRT_MAX\<rparr>,
    \<lparr>aggfn_name = ''covar_samp'', aggfn_nargs = 2, aggfn_argtypes = [FLOAT8OID, FLOAT8OID],
      altfn_name = ''s:pcovar'', altfn_nargs = 6, altfn_argtypes = [INT8OID, FLOAT8OID, FLOAT8OID, FLOAT8OID, FLOAT8OID, FLOAT8OID],
      altfn_argexprs = [ALTFUNC_EXPR_NROWS, ALTFUNC_EXPR_PCOV_X, ALTFUNC_EXPR_PCOV_X2, ALTFUNC_EXPR_PCOV_Y, ALTFUNC_EXPR_PCOV_Y2, ALTFUNC_EXPR_PCOV_XY],
      extra_flags = [], safety_limit = SHRT_MAX\<rparr>,
    \<lparr>aggfn_name = ''regr_avgx'', aggfn_nargs = 2, aggfn_argtypes = [FLOAT8OID, FLOAT8OID],
      altfn_name = ''s:pcovar'', altfn_nargs = 6, altfn_argtypes = [INT8OID, FLOAT8OID, FLOAT8OID, FLOAT8OID, FLOAT8OID, FLOAT8OID],
      altfn_argexprs = [ALTFUNC_EXPR_NROWS, ALTFUNC_EXPR_PCOV_X, ALTFUNC_EXPR_PCOV_X2, ALTFUNC_EXPR_PCOV_Y, ALTFUNC_EXPR_PCOV_Y2, ALTFUNC_EXPR_PCOV_XY],
      extra_flags = [], safety_limit = SHRT_MAX\<rparr>,
    \<lparr>aggfn_name = ''regr_avgy'', aggfn_nargs = 2, aggfn_argtypes = [FLOAT8OID, FLOAT8OID],
      altfn_name = ''s:pcovar'', altfn_nargs = 6, altfn_argtypes = [INT8OID, FLOAT8OID, FLOAT8OID, FLOAT8OID, FLOAT8OID, FLOAT8OID],
      altfn_argexprs = [ALTFUNC_EXPR_NROWS, ALTFUNC_EXPR_PCOV_X, ALTFUNC_EXPR_PCOV_X2, ALTFUNC_EXPR_PCOV_Y, ALTFUNC_EXPR_PCOV_Y2, ALTFUNC_EXPR_PCOV_XY],
      extra_flags = [], safety_limit = SHRT_MAX\<rparr>,
    \<lparr>aggfn_name = ''regr_count'', aggfn_nargs = 2, aggfn_argtypes = [FLOAT8OID, FLOAT8OID],
      altfn_name = ''varref'', altfn_nargs = 1, altfn_argtypes = [INT8OID],
      altfn_argexprs = [ALTFUNC_EXPR_NROWS],
      extra_flags = [], safety_limit = 0\<rparr>,
    \<lparr>aggfn_name = ''regr_intercept'', aggfn_nargs = 2, aggfn_argtypes = [FLOAT8OID, FLOAT8OID],
      altfn_name = ''s:pcovar'', altfn_nargs = 6, altfn_argtypes = [INT8OID, FLOAT8OID, FLOAT8OID, FLOAT8OID, FLOAT8OID, FLOAT8OID],
      altfn_argexprs = [ALTFUNC_EXPR_NROWS, ALTFUNC_EXPR_PCOV_X, ALTFUNC_EXPR_PCOV_X2, ALTFUNC_EXPR_PCOV_Y, ALTFUNC_EXPR_PCOV_Y2, ALTFUNC_EXPR_PCOV_XY],
      extra_flags = [], safety_limit = SHRT_MAX\<rparr>,
    \<lparr>aggfn_name = ''regr_r2'', aggfn_nargs = 2, aggfn_argtypes = [FLOAT8OID, FLOAT8OID],
      altfn_name = ''s:pcovar'', altfn_nargs = 6, altfn_argtypes = [INT8OID, FLOAT8OID, FLOAT8OID, FLOAT8OID, FLOAT8OID, FLOAT8OID],
      altfn_argexprs = [ALTFUNC_EXPR_NROWS, ALTFUNC_EXPR_PCOV_X, ALTFUNC_EXPR_PCOV_X2, ALTFUNC_EXPR_PCOV_Y, ALTFUNC_EXPR_PCOV_Y2, ALTFUNC_EXPR_PCOV_XY],
      extra_flags = [], safety_limit = SHRT_MAX\<rparr>,
    \<lparr>aggfn_name = ''regr_slope'', aggfn_nargs = 2, aggfn_argtypes = [FLOAT8OID, FLOAT8OID],
      altfn_name = ''s:pcovar'', altfn_nargs = 6, altfn_argtypes = [INT8OID, FLOAT8OID, FLOAT8OID, FLOAT8OID, FLOAT8OID, FLOAT8OID],
      altfn_argexprs = [ALTFUNC_EXPR_NROWS, ALTFUNC_EXPR_PCOV_X, ALTFUNC_EXPR_PCOV_X2, ALTFUNC_EXPR_PCOV_Y, ALTFUNC_EXPR_PCOV_Y2, ALTFUNC_EXPR_PCOV_XY],
      extra_flags = [], safety_limit = SHRT_MAX\<rparr>,
    \<lparr>aggfn_name = ''regr_sxx'', aggfn_nargs = 2, aggfn_argtypes = [FLOAT8OID, FLOAT8OID],
      altfn_name = ''s:pcovar'', altfn_nargs = 6, altfn_argtypes = [INT8OID, FLOAT8OID, FLOAT8OID, FLOAT8OID, FLOAT8OID, FLOAT8OID],
      altfn_argexprs = [ALTFUNC_EXPR_NROWS, ALTFUNC_EXPR_PCOV_X, ALTFUNC_EXPR_PCOV_X2, ALTFUNC_EXPR_PCOV_Y, ALTFUNC_EXPR_PCOV_Y2, ALTFUNC_EXPR_PCOV_XY],
      extra_flags = [], safety_limit = SHRT_MAX\<rparr>,
    \<lparr>aggfn_name = ''regr_sxy'', aggfn_nargs = 2, aggfn_argtypes = [FLOAT8OID, FLOAT8OID],
      altfn_name = ''s:pcovar'', altfn_nargs = 6, altfn_argtypes = [INT8OID, FLOAT8OID, FLOAT8OID, FLOAT8OID, FLOAT8OID, FLOAT8OID],
      altfn_argexprs = [ALTFUNC_EXPR_NROWS, ALTFUNC_EXPR_PCOV_X, ALTFUNC_EXPR_PCOV_X2, ALTFUNC_EXPR_PCOV_Y, ALTFUNC_EXPR_PCOV_Y2, ALTFUNC_EXPR_PCOV_XY],
      extra_flags = [], safety_limit = SHRT_MAX\<rparr>,
    \<lparr>aggfn_name = ''regr_syy'', aggfn_nargs = 2, aggfn_argtypes = [FLOAT8OID, FLOAT8OID],
      altfn_name = ''s:pcovar'', altfn_nargs = 6, altfn_argtypes = [INT8OID, FLOAT8OID, FLOAT8OID, FLOAT8OID, FLOAT8OID, FLOAT8OID],
      altfn_argexprs = [ALTFUNC_EXPR_NROWS, ALTFUNC_EXPR_PCOV_X, ALTFUNC_EXPR_PCOV_X2, ALTFUNC_EXPR_PCOV_Y, ALTFUNC_EXPR_PCOV_Y2, ALTFUNC_EXPR_PCOV_XY],
      extra_flags = [], safety_limit = SHRT_MAX\<rparr>]"

text \<open>The row of pg_proc that \<open>aggfunc_lookup_by_oid\<close> reads from the system cache.\<close>

record pg_proc_form =
  proname :: string
  pronargs :: nat
  proargtypes :: "Oid list"

text \<open>
  What the code raises or dies of: \<open>elog(ERROR, ...)\<close> with its message, a failed
  \<open>Assert\<close>, and the dereference of a NULL pointer.
\<close>

datatype failure = ElogError string | AssertFailed string | NullDereference string

text \<open>
  The loop of \<open>aggfunc_lookup_by_oid\<close>: the first entry whose name, arity and first
  \<open>aggfn_nargs\<close> argument types (the \<open>memcmp\<close>) agree with the pg_proc row.
\<close>

fun aggfunc_catalog_scan :: "aggfunc_catalog_t list \<Rightarrow> pg_proc_form \<Rightarrow> aggfunc_catalog_t option" where
  "aggfunc_catalog_scan [] proform = None"
| "aggfunc_catalog_scan (catalog # rest) proform =
     (if aggfn_name catalog = proname proform \<and>
         aggfn_nargs catalog = pronargs proform \<and>
         take (aggfn_nargs catalog) (aggfn_argtypes catalog) =
           take (aggfn_nargs catalog) (proargtypes proform)
      then Some catalog
      else aggfunc_catalog_scan rest proform)"

definition aggfunc_lookup_by_oid ::
  "(Oid \<Rightarrow> pg_proc_form option) \<Rightarrow> Oid \<Rightarrow> failure + aggfunc_catalog_t option" where
  "aggfunc_lookup_by_oid syscache aggfnoid =
     (case syscache aggfnoid of
        None \<Rightarrow> Inl (ElogError ''cache lookup failed for function'')
      | Some proform \<Rightarrow> Inr (aggfunc_catalog_scan aggfunc_catalog proform))"


definition on_ok :: "failure + 'a \<Rightarrow> ('a \<Rightarrow> failure + 'b) \<Rightarrow> failure + 'b" where
  "on_ok r f = (case r of Inl e \<Rightarrow> Inl e | Inr x \<Rightarrow> f x)"

section \<open>Expression trees and the partial-state expressions\<close>

text \<open>
  The PostgreSQL expression nodes that gpupreagg.c builds and inspects. Parse locations,
  type modifiers and collations are left out: \<open>equal()\<close> ignores locations, and the
  other two take no part in what the functions below decide. HOL equality on \<open>Expr\<close>
  is PostgreSQL's \<open>equal()\<close>.

  \<open>Var vartype varattno\<close>, \<open>Const consttype constvalue constisnull\<close>,
  \<open>Param paramtype paramid\<close>, \<open>NullTest arg\<close> (always IS_NOT_NULL, argisrow false),
  \<open>BoolExpr_AND args\<close> (what \<open>make_andclause\<close> returns),
  \<open>CaseExpr casetype when_expr when_result defresult\<close> (one CaseWhen arm),
  \<open>FuncExpr funcid funcresulttype args\<close>, \<open>RelabelType arg resulttype\<close>.
\<close>

datatype Expr =
    Var Oid nat
  | Const Oid int bool
  | Param Oid nat
  | NullTest Expr
  | BoolExpr_AND "Expr list"
  | CaseExpr Oid Expr Expr Expr
  | FuncExpr Oid Oid "Expr list"
  | RelabelType Expr Oid

record Aggref =
  aggfnoid :: Oid
  aggtype :: Oid
  args :: "Expr list"
  aggfilter :: "Expr option"

text \<open>The \<open>expr\<close> field of a TargetEntry holds an aggregate call or a plain expression.\<close>

datatype Node = AggrefNode Aggref | ExprNode Expr

record TargetEntry =
  expr :: Node
  resno :: int
  resname :: "string option"
  resjunk :: bool

definition makeTargetEntry :: "Node \<Rightarrow> int \<Rightarrow> string option \<Rightarrow> bool \<Rightarrow> TargetEntry" where
  "makeTargetEntry e n name junk = \<lparr>expr = e, resno = n, resname = name, resjunk = junk\<rparr>"

fun exprType :: "Expr \<Rightarrow> Oid" where
  "exprType (Var t _) = t"
| "exprType (Const t _ _) = t"
| "exprType (Param t _) = t"
| "exprType (NullTest _) = BOOLOID"
| "exprType (BoolExpr_AND _) = BOOLOID"
| "exprType (CaseExpr t _ _ _) = t"
| "exprType (FuncExpr _ t _) = t"
| "exprType (RelabelType _ t) = t"

definition makeNullConst :: "Oid \<Rightarrow> Expr" where
  "makeNullConst consttype = Const consttype 0 True"

text \<open>
  \<open>make_expr_conditional\<close>: CASE WHEN filter THEN expr ELSE (zero or NULL) END.
  A failed \<open>Assert\<close> is a result of the model, as in an assert-enabled build.
\<close>

definition make_expr_conditional :: "Expr \<Rightarrow> Expr \<Rightarrow> bool \<Rightarrow> failure + Expr" where
  "make_expr_conditional e filter_expr zero_if_unmatched =
     (if exprType filter_expr \<noteq> BOOLOID
      then Inl (AssertFailed ''exprType((Node *) filter) == BOOLOID'')
      else let defresult = (if \<not> zero_if_unmatched then makeNullConst (exprType e)
                            else Const (exprType e) 0 False)
           in Inr (CaseExpr (exprType e) filter_expr e defresult))"

definition make_altfunc_null_const :: "Aggref \<Rightarrow> Expr" where
  "make_altfunc_null_const aggref = makeNullConst INTERNALOID"

definition make_altfunc_nrows_expr :: "Aggref \<Rightarrow> failure + Expr" where
  "make_altfunc_nrows_expr aggref =
     (let nrows_args = map NullTest (args aggref) @
                       (case aggfilter aggref of None \<Rightarrow> [] | Some f \<Rightarrow> [f]);
          nrows_expr = Const INT8OID 1 False
      in if nrows_args = [] then Inr nrows_expr
         else make_expr_conditional nrows_expr
                (if length nrows_args \<le> 1 then hd nrows_args else BoolExpr_AND nrows_args)
                True)"

definition make_altfunc_simple_expr :: "Aggref \<Rightarrow> bool \<Rightarrow> failure + Expr" where
  "make_altfunc_simple_expr aggref zero_if_unmatched =
     (case args aggref of
        [e] \<Rightarrow> (case aggfilter aggref of
                  None \<Rightarrow> Inr e
                | Some f \<Rightarrow> make_expr_conditional e f zero_if_unmatched)
      | _ \<Rightarrow> Inl (AssertFailed ''list_length(aggref->args) == 1''))"

definition make_altfunc_psum_x2 :: "Aggref \<Rightarrow> failure + Expr" where
  "make_altfunc_psum_x2 aggref =
     (case args aggref of
        [e] \<Rightarrow>
          (let type_oid = exprType e in
           if type_oid \<noteq> FLOAT4OID \<and> type_oid \<noteq> FLOAT8OID \<and> type_oid \<noteq> NUMERICOID
           then Inl (ElogError ''Bug? unexpected expression data type'')
           else let func_oid = (if type_oid = FLOAT4OID then F_FLOAT4MUL
                                else if type_oid = FLOAT8OID then F_FLOAT8MUL
                                else F_NUMERIC_MUL);
                    func_expr = FuncExpr func_oid type_oid [e, e]
                in (case aggfilter aggref of
                      None \<Rightarrow> Inr func_expr
                    | Some f \<Rightarrow> make_expr_conditional func_expr f False))
      | _ \<Rightarrow> Inl (AssertFailed ''list_length(aggref->args) == 1''))"

definition make_altfunc_pcov_xy :: "Aggref \<Rightarrow> int \<Rightarrow> failure + Expr" where
  "make_altfunc_pcov_xy aggref action =
     (case args aggref of
        [x, y] \<Rightarrow>
          (if exprType x \<noteq> FLOAT8OID \<or> exprType y \<noteq> FLOAT8OID
           then Inl (ElogError ''Bug? unexpected argument type for co-variance'')
           else let arg_checks = (case aggfilter aggref of None \<Rightarrow> [] | Some f \<Rightarrow> [f]) @
                                 [NullTest x, NullTest y]
                in if action = ALTFUNC_EXPR_PCOV_X
                   then make_expr_conditional x (BoolExpr_AND arg_checks) False
                   else if action = ALTFUNC_EXPR_PCOV_Y
                   then make_expr_conditional y (BoolExpr_AND arg_checks) False
                   else if action = ALTFUNC_EXPR_PCOV_X2
                   then make_expr_conditional (FuncExpr F_FLOAT8MUL FLOAT8OID [x, x])
                          (BoolExpr_AND arg_checks) False
                   else if action = ALTFUNC_EXPR_PCOV_Y2
                   then make_expr_conditional (FuncExpr F_FLOAT8MUL FLOAT8OID [y, y])
                          (BoolExpr_AND arg_checks) False
                   else if action = ALTFUNC_EXPR_PCOV_XY
                   then make_expr_conditional (FuncExpr F_FLOAT8MUL FLOAT8OID [x, y])
                          (BoolExpr_AND arg_checks) False
                   else Inl (ElogError ''Bug? unexpected action type for co-variance''))
      | _ \<Rightarrow> Inl (AssertFailed ''list_length(aggref->args) == 2''))"

text \<open>
  The system caches the planner code reads. They belong to PostgreSQL, so they are
  parameters: pg_proc by oid, pg_cast by (source, target), pg_proc by
  (name, argument types, namespace), and the oid of the schema pgstrom, if it exists.
\<close>

datatype coercion_method =
  COERCION_METHOD_FUNCTION | COERCION_METHOD_BINARY | COERCION_METHOD_INOUT

record pg_cast_form =
  castfunc :: Oid
  castmethod :: coercion_method

record altfn_form =
  altfn_oid :: Oid
  prorettype :: Oid

record syscache =
  PROCOID :: "Oid \<Rightarrow> pg_proc_form option"
  CASTSOURCETARGET :: "Oid \<Rightarrow> Oid \<Rightarrow> pg_cast_form option"
  PROCNAMEARGSNSP :: "string \<Rightarrow> Oid list \<Rightarrow> Oid \<Rightarrow> altfn_form option"
  pgstrom_namespace :: "Oid option"

abbreviation (input) PG_CATALOG_NAMESPACE :: Oid where "PG_CATALOG_NAMESPACE \<equiv> 11"

definition make_expr_typecast :: "syscache \<Rightarrow> Expr \<Rightarrow> Oid \<Rightarrow> failure + Expr" where
  "make_expr_typecast sc e target_type =
     (let source_type = exprType e in
      if source_type = target_type then Inr e
      else (case CASTSOURCETARGET sc source_type target_type of
              None \<Rightarrow> Inl (ElogError ''could not find tuple for cast'')
            | Some cast \<Rightarrow>
                (case castmethod cast of
                   COERCION_METHOD_FUNCTION \<Rightarrow>
                     (if castfunc cast = InvalidOid
                      then Inl (AssertFailed ''OidIsValid(cast->castfunc)'')
                      else Inr (FuncExpr (castfunc cast) target_type [e]))
                 | COERCION_METHOD_BINARY \<Rightarrow> Inr (RelabelType e target_type)
                 | COERCION_METHOD_INOUT \<Rightarrow>
                     Inl (ElogError ''cast-method is not supported in opencl kernel''))))"

section \<open>build_custom_scan_tlist\<close>

text \<open>
  The \<open>forboth\<close> scan of \<open>tlist_dev\<close> and \<open>tlist_dev_action\<close> for an entry with the
  same action and an \<open>equal()\<close> expression.
\<close>

fun tlist_dev_member :: "TargetEntry list \<Rightarrow> int list \<Rightarrow> int \<Rightarrow> Expr \<Rightarrow> bool" where
  "tlist_dev_member (temp # cell1) (temp_action # cell2) action e =
     (if temp_action = action \<and> expr temp = ExprNode e then True
      else tlist_dev_member cell1 cell2 action e)"
| "tlist_dev_member _ _ action e = False"

text \<open>The \<open>switch (action)\<close> of the inner loop, for the actions that build an expression.\<close>

definition make_altfunc_expr :: "Aggref \<Rightarrow> int \<Rightarrow> failure + Expr" where
  "make_altfunc_expr aggref action =
     (if action = ALTFUNC_EXPR_NROWS then make_altfunc_nrows_expr aggref
      else if action = ALTFUNC_EXPR_PMIN \<or> action = ALTFUNC_EXPR_PMAX
      then make_altfunc_simple_expr aggref False
      else if action = ALTFUNC_EXPR_PSUM then make_altfunc_simple_expr aggref True
      else if action = ALTFUNC_EXPR_PSUM_X2 then make_altfunc_psum_x2 aggref
      else if action = ALTFUNC_EXPR_PCOV_X \<or> action = ALTFUNC_EXPR_PCOV_Y \<or>
              action = ALTFUNC_EXPR_PCOV_X2 \<or> action = ALTFUNC_EXPR_PCOV_Y2 \<or>
              action = ALTFUNC_EXPR_PCOV_XY
      then make_altfunc_pcov_xy aggref action
      else Inl (ElogError ''unknown alternative function code''))"

text \<open>
  One turn of the loop \<open>for (j=0; j < aggfn_cat->altfn_nargs; j++)\<close>; the state is
  (\<open>tlist_dev\<close>, \<open>tlist_dev_action\<close>, \<open>altfn_args\<close>).
\<close>

type_synonym altfn_state = "TargetEntry list \<times> int list \<times> Expr list"

definition build_altfn_arg ::
  "syscache \<Rightarrow> Aggref \<Rightarrow> int \<times> Oid \<Rightarrow> altfn_state \<Rightarrow> failure + altfn_state" where
  "build_altfn_arg sc aggref arg st =
     (case arg of (action, argtype) \<Rightarrow>
      case st of (tlist_dev, tlist_dev_action, altfn_args) \<Rightarrow>
      if action = ALTFUNC_CONST_NULL
      then Inr (tlist_dev, tlist_dev_action, altfn_args @ [make_altfunc_null_const aggref])
      else on_ok (make_altfunc_expr aggref action) (\<lambda>e0.
           on_ok (make_expr_typecast sc e0 argtype) (\<lambda>e.
             if tlist_dev_member tlist_dev tlist_dev_action action e
             then Inr (tlist_dev, tlist_dev_action, altfn_args @ [e])
             else Inr (tlist_dev @ [makeTargetEntry (ExprNode e) (int (length tlist_dev) + 1) None False],
                       tlist_dev_action @ [action],
                       altfn_args @ [e]))))"

fun build_altfn_args ::
  "syscache \<Rightarrow> Aggref \<Rightarrow> (int \<times> Oid) list \<Rightarrow> altfn_state \<Rightarrow> failure + altfn_state" where
  "build_altfn_args sc aggref [] st = Inr st"
| "build_altfn_args sc aggref (arg # rest) st =
     on_ok (build_altfn_arg sc aggref arg st) (build_altfn_args sc aggref rest)"

text \<open>
  The host-side entry of an aggregate: the single partial value for \<open>varref\<close>, else a call
  of the alternative function found in schema pg_catalog (\<open>c:\<close>) or pgstrom (\<open>s:\<close>).
\<close>

definition make_tlist_host_entry ::
  "syscache \<Rightarrow> aggfunc_catalog_t \<Rightarrow> TargetEntry \<Rightarrow> Expr list \<Rightarrow> failure + TargetEntry" where
  "make_tlist_host_entry sc aggfn_cat tle altfn_args =
     (if altfn_name aggfn_cat = ''varref''
      then (case altfn_args of
              [a] \<Rightarrow> Inr (makeTargetEntry (ExprNode a) (resno tle) (resname tle) (resjunk tle))
            | _ \<Rightarrow> Inl (AssertFailed ''list_length(altfn_args) == 1''))
      else on_ok
             (if take 2 (altfn_name aggfn_cat) = ''c:'' then Inr PG_CATALOG_NAMESPACE
              else if take 2 (altfn_name aggfn_cat) = ''s:''
              then (case pgstrom_namespace sc of
                      None \<Rightarrow> Inl (ElogError ''schema pgstrom was not found'')
                    | Some ns \<Rightarrow> Inr ns)
              else Inl (ElogError ''Bug? incorrect alternative function catalog''))
             (\<lambda>namespace_oid.
                case PROCNAMEARGSNSP sc (drop 2 (altfn_name aggfn_cat))
                       (take (altfn_nargs aggfn_cat) (altfn_argtypes aggfn_cat)) namespace_oid of
                  None \<Rightarrow> Inl (ElogError ''no alternative function not found'')
                | Some altfn \<Rightarrow>
                    Inr (makeTargetEntry
                           (ExprNode (FuncExpr (altfn_oid altfn) (prorettype altfn) altfn_args))
                           (resno tle) (resname tle) (resjunk tle))))"

text \<open>
  \<open>PathTarget\<close>: only \<open>sortgrouprefs\<close> is read, a NULL pointer or an array with one cell
  per target column. A read past the array is a failure of the model.
\<close>

record PathTarget =
  sortgrouprefs :: "nat list option"

definition sortgroupref_at :: "PathTarget \<Rightarrow> nat \<Rightarrow> failure + nat option" where
  "sortgroupref_at target index =
     (case sortgrouprefs target of
        None \<Rightarrow> Inr None
      | Some refs \<Rightarrow> if index < length refs then Inr (Some (refs ! index))
                     else Inl (NullDereference ''target->sortgrouprefs[index]''))"

type_synonym tlist_state = "TargetEntry list \<times> TargetEntry list \<times> int list"

text \<open>The body of \<open>foreach (lc, tlist_orig)\<close>; the state is (host, dev, dev_action).\<close>

definition build_tlist_entry ::
  "syscache \<Rightarrow> PathTarget \<Rightarrow> nat \<Rightarrow> TargetEntry \<Rightarrow> tlist_state \<Rightarrow> failure + tlist_state" where
  "build_tlist_entry sc target index tle st =
     (case st of (tlist_host, tlist_dev, tlist_dev_action) \<Rightarrow>
      on_ok (sortgroupref_at target index) (\<lambda>sgref.
      case expr tle of
        AggrefNode aggref \<Rightarrow>
          (if sgref \<noteq> None \<and> sgref \<noteq> Some 0
           then Inl (AssertFailed ''target->sortgrouprefs[index] == 0'')
           else on_ok (aggfunc_lookup_by_oid (PROCOID sc) (aggfnoid aggref)) (\<lambda>found.
                case found of
                  None \<Rightarrow> Inl (ElogError ''lookup failed on aggregate function'')
                | Some aggfn_cat \<Rightarrow>
                    on_ok (build_altfn_args sc aggref
                             (zip (take (altfn_nargs aggfn_cat) (altfn_argexprs aggfn_cat))
                                  (take (altfn_nargs aggfn_cat) (altfn_argtypes aggfn_cat)))
                             (tlist_dev, tlist_dev_action, []))
                      (\<lambda>(tlist_dev', tlist_dev_action', altfn_args).
                         on_ok (make_tlist_host_entry sc aggfn_cat tle altfn_args) (\<lambda>host.
                           Inr (tlist_host @ [host], tlist_dev', tlist_dev_action')))))
      | ExprNode e \<Rightarrow>
          Inr (tlist_host @ [tle],
               tlist_dev @ [tle],
               tlist_dev_action @
                 [if (case sgref of None \<Rightarrow> True | Some r \<Rightarrow> r > 0)
                  then ALTFUNC_GROUPING_KEY else ALTFUNC_CONST_VALUE])))"

fun build_tlist_loop ::
  "syscache \<Rightarrow> PathTarget \<Rightarrow> nat \<Rightarrow> TargetEntry list \<Rightarrow> tlist_state \<Rightarrow> failure + tlist_state" where
  "build_tlist_loop sc target index [] st = Inr st"
| "build_tlist_loop sc target index (tle # rest) st =
     on_ok (build_tlist_entry sc target index tle st)
       (build_tlist_loop sc target (index + 1) rest)"

definition build_custom_scan_tlist ::
  "syscache \<Rightarrow> PathTarget \<Rightarrow> TargetEntry list \<Rightarrow> failure + tlist_state" where
  "build_custom_scan_tlist sc target tlist_orig =
     build_tlist_loop sc target 0 tlist_orig ([], [], [])"

section \<open>Evaluation of expressions on a row\<close>

text \<open>
  What an expression yields on one input row is decided by PostgreSQL's executor and by
  the device code generated from the expression, neither of which is in gpupreagg.c. The
  evaluator below gives the SQL meaning of the node kinds: a value is \<open>Some\<close> datum or
  \<open>None\<close> for NULL; a boolean datum is true when it is not zero; IS NOT NULL never
  yields NULL; AND is three-valued; CASE takes its arm when the condition is true and its
  default when the condition is false or NULL. Function calls are interpreted by the
  environment.
\<close>

record eval_env =
  row_value :: "nat \<Rightarrow> int option"
  param_value :: "nat \<Rightarrow> int option"
  func_value :: "Oid \<Rightarrow> int option list \<Rightarrow> int option"

fun ExecEvalAnd :: "int option list \<Rightarrow> bool \<Rightarrow> int option" where
  "ExecEvalAnd [] AnyNull = (if AnyNull then None else Some 1)"
| "ExecEvalAnd (None # rest) AnyNull = ExecEvalAnd rest True"
| "ExecEvalAnd (Some v # rest) AnyNull = (if v = 0 then Some 0 else ExecEvalAnd rest AnyNull)"

fun ExecEvalExpr :: "eval_env \<Rightarrow> Expr \<Rightarrow> int option" where
  "ExecEvalExpr env (Var _ varattno) = row_value env varattno"
| "ExecEvalExpr env (Const _ constvalue constisnull) =
     (if constisnull then None else Some constvalue)"
| "ExecEvalExpr env (Param _ paramid) = param_value env paramid"
| "ExecEvalExpr env (NullTest arg) =
     Some (if ExecEvalExpr env arg = None then 0 else 1)"
| "ExecEvalExpr env (BoolExpr_AND es) = ExecEvalAnd (map (ExecEvalExpr env) es) False"
| "ExecEvalExpr env (CaseExpr _ w r d) =
     (case ExecEvalExpr env w of
        Some v \<Rightarrow> if v \<noteq> 0 then ExecEvalExpr env r else ExecEvalExpr env d
      | None \<Rightarrow> ExecEvalExpr env d)"
| "ExecEvalExpr env (FuncExpr funcid _ es) = func_value env funcid (map (ExecEvalExpr env) es)"
| "ExecEvalExpr env (RelabelType arg _) = ExecEvalExpr env arg"

text \<open>A FILTER clause passes on a row when it evaluates to true.\<close>

definition filter_passes :: "eval_env \<Rightarrow> Expr option \<Rightarrow> bool" where
  "filter_passes env f =
     (case f of None \<Rightarrow> True
      | Some e \<Rightarrow> (case ExecEvalExpr env e of Some v \<Rightarrow> v \<noteq> 0 | None \<Rightarrow> False))"

definition all_args_not_null :: "eval_env \<Rightarrow> Expr list \<Rightarrow> bool" where
  "all_args_not_null env es = list_all (\<lambda>e. ExecEvalExpr env e \<noteq> None) es"

text \<open>
  The example of the specification: COUNT(x) FILTER (WHERE p) over a relation whose
  first column is x (int4) and second column is p (boolean), and its three rows.
\<close>

definition count_x_filter_p :: Aggref where
  "count_x_filter_p = \<lparr>aggfnoid = 2147, aggtype = INT8OID, args = [Var INT4OID 1],
                       aggfilter = Some (Var BOOLOID 2)\<rparr>"

definition example_row :: "int option \<Rightarrow> int option \<Rightarrow> eval_env" where
  "example_row x p = \<lparr>row_value = (\<lambda>n. if n = 1 then x else if n = 2 then p else None),
                      param_value = (\<lambda>_. None), func_value = (\<lambda>_ _. None)\<rparr>"

definition count_example_rows :: "eval_env list" where
  "count_example_rows =
     [example_row (Some 1) (Some 1), example_row None (Some 1), example_row (Some 2) (Some 0)]"

text \<open>System caches without any row.\<close>

definition empty_syscache :: syscache where
  "empty_syscache =
     \<lparr>PROCOID = (\<lambda>_. None), CASTSOURCETARGET = (\<lambda>_ _. None),
      PROCNAMEARGSNSP = (\<lambda>_ _ _. None), pgstrom_namespace = None\<rparr>"

section \<open>Run-time state: shared state, data stores and tasks\<close>

text \<open>
  The error codes \<open>StromError_*\<close> are macros of a header outside gpupreagg.c; the three
  the code names are constructors, and every other code (among them the CUDA status that
  \<open>gpupreagg_respond_task\<close> stores) is \<open>StromError_Other\<close>. \<open>StromError_Success\<close> is
  the zero code: \<open>memset(&kerror, 0, ...)\<close> yields it.
\<close>

datatype strom_errcode =
    StromError_Success
  | StromError_CpuReCheck
  | StromError_DataStoreNoSpace
  | StromError_Other int

datatype reduction_mode =
    GPUPREAGG_INVALID_REDUCTION
  | GPUPREAGG_NOGROUP_REDUCTION
  | GPUPREAGG_LOCAL_REDUCTION
  | GPUPREAGG_GLOBAL_REDUCTION
  | GPUPREAGG_FINAL_REDUCTION
  | GPUPREAGG_ONLY_TERMINATION

datatype kds_format = KDS_FORMAT_ROW | KDS_FORMAT_SLOT | KDS_FORMAT_HASH | KDS_FORMAT_BLOCK

text \<open>The header of a \<open>kern_data_store\<close>: the fields gpupreagg.c reads and writes.\<close>

record kern_data_store =
  kds_length :: nat
  usage :: "32 word"
  ncols :: "32 word"
  nitems :: "32 word"
  nrooms :: "32 word"
  format :: kds_format

text \<open>
  \<open>pgstrom_data_store\<close>. \<open>ntasks_running\<close> counts the tasks running a kernel on a final
  buffer; \<open>is_dereferenced\<close> says that no further task may attach to it.
\<close>

record pgstrom_data_store =
  nblocks_uncached :: "32 word"
  ntasks_running :: "32 word"
  is_dereferenced :: bool
  kds :: kern_data_store

text \<open>
  \<open>GpuPreAggSharedState\<close>. A final buffer is shared by the tasks, so \<open>pds_final\<close> is
  an address (\<open>None\<close> is NULL) into the store of final buffers of \<open>world\<close> below. The
  three fields that the task structure has under the same name carry the suffix
  \<open>_sstate\<close>. Device pointers (\<open>CUdeviceptr\<close>) are 64-bit words, \<open>0\<close> is the null
  pointer.
\<close>

record GpuPreAggSharedState =
  refcnt :: "32 word"
  pds_final_sstate :: "nat option"
  m_kds_final_sstate :: "64 word"
  m_fhash_sstate :: "64 word"
  f_ncols :: "32 word"
  f_nrooms :: "32 word"
  f_nitems :: "32 word"
  f_extra_sz :: "32 word"
  n_tasks_nogrp :: "32 word"
  n_tasks_local :: "32 word"
  n_tasks_global :: "32 word"
  n_tasks_final :: "32 word"
  plan_ngroups :: "32 word"
  exec_ngroups :: "32 word"
  last_ngroups :: "32 word"
  exec_extra_sz :: "32 word"
  last_extra_sz :: "32 word"

text \<open>
  \<open>GpuPreAggTask\<close>, with the fields of its \<open>task\<close> (\<open>task_kerror\<close> is
  \<open>task.kerror.errcode\<close>, \<open>cpu_fallback\<close> is \<open>task.cpu_fallback\<close>) and of its
  \<open>kern\<close> (\<open>reduction_mode\<close> to \<open>varlena_usage\<close>; \<open>kern_kerror\<close> is
  \<open>kern.kerror.errcode\<close>). The input store belongs to one task and is held by value
  (\<open>None\<close> is NULL); the final buffer is an address. Performance counters and CUDA
  events are left out.
\<close>

record GpuPreAggTask =
  task_kerror :: strom_errcode
  cpu_fallback :: bool
  with_nvme_strom :: bool
  is_last_task :: bool
  is_retry :: bool
  m_gpreagg :: "64 word"
  m_kds_in :: "64 word"
  m_kds_slot :: "64 word"
  m_ghash :: "64 word"
  m_kds_final :: "64 word"
  m_fhash :: "64 word"
  pds_in :: "pgstrom_data_store option"
  kds_slot :: kern_data_store
  pds_final :: "nat option"
  reduction_mode :: reduction_mode
  nitems_real :: "32 word"
  key_dist_salt :: "32 word"
  hash_size :: "32 word"
  kresults_1_offset :: nat
  kresults_2_offset :: nat
  kern_kerror :: strom_errcode
  progress_final :: bool
  num_groups :: "32 word"
  varlena_usage :: "32 word"

text \<open>
  What the functions below act on besides the task: the shared state, the store of final
  buffers, the device pointers handed to \<open>gpuMemFree_v2\<close> and to \<open>gpuMemFreeIOMap\<close>
  (oldest first), and the tasks pushed with \<open>gpuservPushGpuTask\<close>. The device
  allocator is outside gpupreagg.c; its calls are taken to succeed (on failure the code
  ends the server process with \<open>elog(FATAL)\<close>).
\<close>

record world =
  gpa_sstate :: GpuPreAggSharedState
  pds :: "nat \<Rightarrow> pgstrom_data_store"
  gpu_mem_freed :: "64 word list"
  gpu_iomap_freed :: "64 word list"
  pushed_tasks :: "GpuPreAggTask list"

text \<open>
  Sizes and offsets of structures (\<open>STROMALIGN\<close>, \<open>LONGALIGN\<close>, \<open>offsetof\<close>,
  \<open>sizeof\<close>) depend on headers and on the platform; they are parameters.
\<close>

record layout =
  STROMALIGN :: "nat \<Rightarrow> nat"
  LONGALIGN :: "nat \<Rightarrow> nat"
  offsetof_colmeta :: "nat \<Rightarrow> nat"
  offsetof_results :: "nat \<Rightarrow> nat"
  offsetof_kparams :: nat
  sizeof_Datum :: nat
  sizeof_char :: nat

subsection \<open>put_gpupreagg_shared_state, gpupreagg_cleanup_cuda_resources\<close>

text \<open>
  \<open>put_gpupreagg_shared_state\<close>: the result says whether the shared state was freed.
\<close>

definition put_gpupreagg_shared_state ::
  "GpuPreAggSharedState \<Rightarrow> failure + (bool \<times> GpuPreAggSharedState)" where
  "put_gpupreagg_shared_state s =
     (let refcnt_new = refcnt s - 1 in
      if sint refcnt_new < 0 then Inl (AssertFailed ''refcnt_new >= 0'')
      else if refcnt_new = 0
      then (if pds_final_sstate s \<noteq> None then Inl (AssertFailed ''!gpa_sstate->pds_final'')
            else if m_fhash_sstate s \<noteq> 0 then Inl (AssertFailed ''gpa_sstate->m_fhash == 0UL'')
            else if m_kds_final_sstate s = 0 then Inl (AssertFailed ''gpa_sstate->m_kds_final'')
            else Inr (True, s\<lparr>refcnt := refcnt_new\<rparr>))
      else Inr (False, s\<lparr>refcnt := refcnt_new\<rparr>))"

definition gpupreagg_cleanup_cuda_resources ::
  "GpuPreAggTask \<Rightarrow> bool \<Rightarrow> world \<Rightarrow> failure + (GpuPreAggTask \<times> world)" where
  "gpupreagg_cleanup_cuda_resources gpreagg is_terminator w =
     (let w1 = w\<lparr>gpu_mem_freed := gpu_mem_freed w @ [m_kds_in gpreagg]\<rparr>;
          w2 = (if with_nvme_strom gpreagg \<and> m_kds_in gpreagg \<noteq> 0
                then w1\<lparr>gpu_iomap_freed := gpu_iomap_freed w1 @ [m_kds_in gpreagg]\<rparr>
                else w1);
          g1 = gpreagg\<lparr>m_gpreagg := 0, m_kds_in := 0, m_kds_slot := 0, m_ghash := 0\<rparr>
      in if is_terminator
         then (if m_kds_final g1 = 0 then Inl (AssertFailed ''gpreagg->m_kds_final != 0UL'')
               else Inr (g1\<lparr>m_kds_final := 0, m_fhash := 0\<rparr>,
                         w2\<lparr>gpu_mem_freed := gpu_mem_freed w2 @ [m_kds_final g1]\<rparr>))
         else Inr (g1\<lparr>m_kds_final := 0, m_fhash := 0\<rparr>, w2))"

subsection \<open>gpupreagg_push_terminator_task\<close>

text \<open>The task that \<open>memset(gpreagg_new, 0, required)\<close> leaves.\<close>

definition zeroed_kds :: kern_data_store where
  "zeroed_kds = \<lparr>kds_length = 0, usage = 0, ncols = 0, nitems = 0, nrooms = 0,
                 format = KDS_FORMAT_ROW\<rparr>"

definition zeroed_task :: GpuPreAggTask where
  "zeroed_task =
     \<lparr>task_kerror = StromError_Success, cpu_fallback = False, with_nvme_strom = False,
      is_last_task = False, is_retry = False,
      m_gpreagg = 0, m_kds_in = 0, m_kds_slot = 0, m_ghash = 0, m_kds_final = 0, m_fhash = 0,
      pds_in = None, kds_slot = zeroed_kds, pds_final = None,
      reduction_mode = GPUPREAGG_INVALID_REDUCTION,
      nitems_real = 0, key_dist_salt = 0, hash_size = 0,
      kresults_1_offset = 0, kresults_2_offset = 0,
      kern_kerror = StromError_Success, progress_final = False,
      num_groups = 0, varlena_usage = 0\<rparr>"

text \<open>
  \<open>gpupreagg_push_terminator_task\<close>: the clone takes the final buffer and its device
  memory over from the old task (and, as the source writes it, the old task's
  \<open>m_ghash\<close> as its \<open>m_fhash\<close>) and is pushed to the server's queue.
\<close>

definition gpupreagg_push_terminator_task ::
  "GpuPreAggTask \<Rightarrow> world \<Rightarrow> GpuPreAggTask \<times> world" where
  "gpupreagg_push_terminator_task gpreagg_old w =
     (let gpreagg_new = zeroed_task\<lparr>pds_in := None,
                                     pds_final := pds_final gpreagg_old,
                                     m_kds_final := m_kds_final gpreagg_old,
                                     m_fhash := m_ghash gpreagg_old,
                                     reduction_mode := GPUPREAGG_ONLY_TERMINATION\<rparr>
      in (gpreagg_old\<lparr>pds_final := None, m_kds_final := 0, m_ghash := 0\<rparr>,
          w\<lparr>pushed_tasks := pushed_tasks w @ [gpreagg_new]\<rparr>))"

subsection \<open>gpupreagg_complete_task\<close>

text \<open>
  The result is the return value (1: run the task again, 0: hand the task back to the
  backend, -1: release the task), the task and the world. The local \<open>pds_final\<close> is
  read once on entry; where the code dereferences it, a NULL pointer is a failure.
  The working head that scenario 1 resizes, \<open>kds_head\<close> in the source, is the task's
  \<open>kds_slot\<close>.
\<close>

definition gpupreagg_complete_task ::
  "layout \<Rightarrow> GpuPreAggTask \<Rightarrow> world \<Rightarrow> failure + (int \<times> GpuPreAggTask \<times> world)" where
  "gpupreagg_complete_task L gpreagg w =
     (if reduction_mode gpreagg = GPUPREAGG_ONLY_TERMINATION
      then (case pds_final gpreagg of
              None \<Rightarrow> Inl (NullDereference ''pds_final->ntasks_running'')
            | Some p \<Rightarrow>
                if \<not> (ntasks_running (pds w p) = 0 \<and> is_dereferenced (pds w p))
                then Inl (AssertFailed
                            ''pds_final->ntasks_running == 0 && pds_final->is_dereferenced'')
                else on_ok (gpupreagg_cleanup_cuda_resources gpreagg True w)
                       (\<lambda>(g, w'). Inr (0, g, w')))
      else if task_kerror gpreagg = StromError_DataStoreNoSpace
      then (if \<not> progress_final gpreagg
            then on_ok (gpupreagg_cleanup_cuda_resources gpreagg False w) (\<lambda>(g, w').
                   let kds_head = kds_slot g;
                       n = unat (nitems_real g);
                       kds_length' =
                         STROMALIGN L (offsetof_colmeta L (unat (ncols kds_head))) +
                         STROMALIGN L (LONGALIGN L (sizeof_Datum L + sizeof_char L) *
                                       unat (ncols kds_head)) * n;
                       g1 = g\<lparr>hash_size := max (hash_size g) (nitems_real g),
                              kresults_2_offset :=
                                STROMALIGN L (kresults_1_offset g + offsetof_results L n),
                              kds_slot := kds_head\<lparr>kds_length := kds_length',
                                                    nrooms := nitems_real g\<rparr>\<rparr>
                   in Inr (1, g1\<lparr>is_retry := True\<rparr>, w'))
            else (case pds_final gpreagg of
                    None \<Rightarrow> Inl (NullDereference ''pds_final->ntasks_running'')
                  | Some p \<Rightarrow>
                      if \<not> (ntasks_running (pds w p) > 0)
                      then Inl (AssertFailed ''pds_final->ntasks_running > 0'')
                      else
                        let s = gpa_sstate w;
                            s' = (if pds_final_sstate s = Some p
                                  then s\<lparr>pds_final_sstate := None, m_kds_final_sstate := 0,
                                         m_fhash_sstate := 0\<rparr>
                                  else s);
                            n' = ntasks_running (pds w p) - 1;
                            w1 = w\<lparr>gpa_sstate := s',
                                   pds := (pds w)(p := (pds w p)\<lparr>is_dereferenced := True,
                                                                 ntasks_running := n'\<rparr>)\<rparr>;
                            is_terminator = (n' = 0);
                            (g1, w2) = (if is_terminator
                                        then gpupreagg_push_terminator_task gpreagg w1
                                        else (gpreagg, w1))
                        in on_ok (gpupreagg_cleanup_cuda_resources g1 False w2) (\<lambda>(g2, w3).
                             Inr (1, g2\<lparr>reduction_mode := GPUPREAGG_FINAL_REDUCTION,
                                        is_retry := True\<rparr>, w3))))
      else (case pds_final gpreagg of
              None \<Rightarrow> Inl (NullDereference ''pds_final->ntasks_running'')
            | Some p \<Rightarrow>
                if \<not> (ntasks_running (pds w p) > 0)
                then Inl (AssertFailed ''pds_final->ntasks_running > 0'')
                else
                  let n' = ntasks_running (pds w p) - 1;
                      w1 = w\<lparr>pds := (pds w)(p := (pds w p)\<lparr>ntasks_running := n'\<rparr>)\<rparr>;
                      is_terminator = (n' = 0 \<and> is_dereferenced (pds w p));
                      g1 = (if task_kerror gpreagg = StromError_CpuReCheck \<and>
                               \<not> progress_final gpreagg
                            then gpreagg\<lparr>task_kerror := StromError_Success,
                                         cpu_fallback := True\<rparr>
                            else gpreagg)
                  in if task_kerror g1 = StromError_Success
                     then (if \<not> is_terminator
                           then on_ok (gpupreagg_cleanup_cuda_resources g1 False w1)
                                  (\<lambda>(g2, w2). Inr (- 1, g2, w2))
                           else Inr (1, g1\<lparr>reduction_mode := GPUPREAGG_ONLY_TERMINATION\<rparr>, w1))
                     else on_ok (gpupreagg_cleanup_cuda_resources g1 is_terminator w1)
                            (\<lambda>(g2, w2). Inr (0, g2, w2))))"

text \<open>
  \<open>gpupreagg_next_tuple\<close> reads the rows of the current task: through the row-at-a-time
  fallback over the task's input when \<open>cpu_fallback\<close> is set, else from the final buffer.
\<close>

datatype tuple_source = CpuFallbackOverInput | FinalBuffer

definition gpupreagg_next_tuple_source :: "GpuPreAggTask \<Rightarrow> tuple_source" where
  "gpupreagg_next_tuple_source gpreagg =
     (if cpu_fallback gpreagg then CpuFallbackOverInput else FinalBuffer)"

text \<open>
  What becomes of a task after \<open>gpupreagg_complete_task\<close> is decided by the GPU server
  (outside gpupreagg.c) on the return value, which the handler's own comments explain:
  0 hands the task back to the backend process, where \<open>gpupreagg_next_tuple\<close> reads
  its rows; 1 puts it on the pending list to be run again; -1 releases it (for which
  \<open>gpupreagg_release_task\<close> drops the task with its input store).
\<close>

datatype task_disposition = ReturnToBackend | RunAgain | ReleaseTask

definition gpuserv_disposition :: "int \<Rightarrow> task_disposition" where
  "gpuserv_disposition retval =
     (if retval = 0 then ReturnToBackend else if 0 < retval then RunAgain else ReleaseTask)"


section \<open>Double precision arithmetic\<close>

text \<open>
  \<open>cl_double\<close> is the C type \<open>double\<close>, the binary64 format of IEEE 754. A finite
  value of the type is modelled by the rational number it denotes. Every arithmetic
  operation of C on doubles is the exact operation followed by one rounding to the
  nearest representable number, ties to the even significand (the rounding mode a
  process starts in; no wider intermediate precision and no fused multiply-add, as on
  x86-64). Infinities and NaN are not represented: the values computed in gpupreagg.c
  from 32-bit counters stay far below the largest finite double.

  \<open>floor_log2 x\<close> is the integer \<open>k\<close> with \<open>2^k \<le> x < 2^(k+1)\<close>, for positive \<open>x\<close>.
  \<open>binary64_exponent x\<close> is the exponent of the last bit of the 53-bit significand
  that holds \<open>x\<close>; it does not go below -1074, the exponent of the subnormal numbers.
\<close>

type_synonym cl_double = rat

definition round_half_even :: "rat \<Rightarrow> int" where
  "round_half_even x =
     (let f = \<lfloor>x\<rfloor>; d = x - of_int f
      in if d < 1 / 2 then f else if 1 / 2 < d then f + 1 else if even f then f else f + 1)"

definition floor_log2 :: "rat \<Rightarrow> int" where
  "floor_log2 x = (if 1 \<le> x then bitlen \<lfloor>x\<rfloor> - 1 else - bitlen (\<lceil>1 / x\<rceil> - 1))"

definition binary64_exponent :: "rat \<Rightarrow> int" where
  "binary64_exponent x = max (floor_log2 \<bar>x\<bar> - 52) (- 1074)"

definition binary64_round :: "rat \<Rightarrow> cl_double" where
  "binary64_round x =
     (if x = 0 then 0
      else of_int (round_half_even (x / 2 powi binary64_exponent x)) *
           2 powi binary64_exponent x)"

definition double_add :: "cl_double \<Rightarrow> cl_double \<Rightarrow> cl_double" where
  "double_add a b = binary64_round (a + b)"

definition double_sub :: "cl_double \<Rightarrow> cl_double \<Rightarrow> cl_double" where
  "double_sub a b = binary64_round (a - b)"

definition double_mul :: "cl_double \<Rightarrow> cl_double \<Rightarrow> cl_double" where
  "double_mul a b = binary64_round (a * b)"

definition double_div :: "cl_double \<Rightarrow> cl_double \<Rightarrow> cl_double" where
  "double_div a b = binary64_round (a / b)"

text \<open>The conversion of a 32-bit unsigned integer to \<open>double\<close> is exact.\<close>

definition double_of_uint :: "32 word \<Rightarrow> cl_double" where
  "double_of_uint n = of_nat (unat n)"

section \<open>Reduction strategy\<close>

text \<open>
  The blended estimate of \<open>gpupreagg_setup_strategy\<close>, with the operations of C on
  \<open>cl_double\<close>: the sum of the four 32-bit counters wraps before it is converted;
  \<open>Min(num_tasks, 30.0) / 30.0\<close>, \<open>1.0 - exec_ratio\<close>, the two products and their sum
  are rounded one by one. \<open>devBaselineMaxThreadsPerBlock\<close> is a C \<open>int\<close> set
  elsewhere; its division by 4 is the integer division of C (towards zero), as is the
  division of the unsigned \<open>nitems_real\<close>, and both quotients are converted to
  \<open>double\<close> exactly before they are compared.
\<close>

definition c_int_div :: "int \<Rightarrow> int \<Rightarrow> int" where
  "c_int_div a b = sgn a * sgn b * (\<bar>a\<bar> div \<bar>b\<bar>)"

definition counted_tasks :: "GpuPreAggSharedState \<Rightarrow> 32 word" where
  "counted_tasks s = n_tasks_nogrp s + n_tasks_local s + n_tasks_global s + n_tasks_final s"

definition num_tasks :: "GpuPreAggSharedState \<Rightarrow> cl_double" where
  "num_tasks s = double_of_uint (counted_tasks s)"

definition exec_ratio :: "GpuPreAggSharedState \<Rightarrow> cl_double" where
  "exec_ratio s = double_div (min (num_tasks s) 30) 30"

definition real_ngroups :: "GpuPreAggSharedState \<Rightarrow> cl_double" where
  "real_ngroups s =
     double_add (double_mul (double_of_uint (plan_ngroups s)) (double_sub 1 (exec_ratio s)))
                (double_mul (double_of_uint (exec_ngroups s)) (exec_ratio s))"

text \<open>The three-way choice of \<open>gpupreagg_setup_strategy\<close> on the blended estimate.\<close>

definition select_reduction_mode ::
  "int \<Rightarrow> GpuPreAggSharedState \<Rightarrow> 32 word \<Rightarrow> reduction_mode" where
  "select_reduction_mode devBaselineMaxThreadsPerBlock s nitems_real_of_task =
     (if real_ngroups s < of_int (c_int_div devBaselineMaxThreadsPerBlock 4)
      then GPUPREAGG_LOCAL_REDUCTION
      else if real_ngroups s < of_nat (unat nitems_real_of_task div 4)
      then GPUPREAGG_GLOBAL_REDUCTION
      else GPUPREAGG_FINAL_REDUCTION)"

text \<open>
  \<open>gpupreagg_setup_strategy\<close>. When the shared state holds no final buffer the source
  calls \<open>__gpupreagg_setup_strategy\<close>, whose body is unfinished in this revision (it
  breaks off after the device allocation); the creation of a buffer is therefore the
  parameter \<open>create_final\<close>. CUDA calls are taken to succeed.
\<close>

definition gpupreagg_setup_strategy ::
  "(GpuPreAggTask \<Rightarrow> world \<Rightarrow> failure + (GpuPreAggTask \<times> world)) \<Rightarrow> int \<Rightarrow>
   GpuPreAggTask \<Rightarrow> world \<Rightarrow> failure + (GpuPreAggTask \<times> world)" where
  "gpupreagg_setup_strategy create_final devBaselineMaxThreadsPerBlock gpreagg w =
     (case pds_in gpreagg of
        None \<Rightarrow> Inl (NullDereference ''pds_in->kds.format'')
      | Some pin \<Rightarrow>
          if format (kds pin) \<noteq> KDS_FORMAT_ROW \<and> format (kds pin) \<noteq> KDS_FORMAT_BLOCK
          then Inl (AssertFailed ''pds_in->kds.format == KDS_FORMAT_ROW || KDS_FORMAT_BLOCK'')
          else if reduction_mode gpreagg \<noteq> GPUPREAGG_INVALID_REDUCTION \<and>
                  reduction_mode gpreagg \<noteq> GPUPREAGG_NOGROUP_REDUCTION
          then Inl (AssertFailed ''reduction_mode == GPUPREAGG_NOGROUP_REDUCTION'')
          else
            let g1 = (if reduction_mode gpreagg = GPUPREAGG_INVALID_REDUCTION
                      then gpreagg\<lparr>reduction_mode :=
                             select_reduction_mode devBaselineMaxThreadsPerBlock
                               (gpa_sstate w) (nitems_real gpreagg)\<rparr>
                      else gpreagg)
            in (case pds_final_sstate (gpa_sstate w) of
                  None \<Rightarrow> create_final g1 w
                | Some p \<Rightarrow>
                    Inr (g1\<lparr>pds_final := Some p,
                            m_fhash := m_fhash_sstate (gpa_sstate w),
                            m_kds_final := m_kds_final_sstate (gpa_sstate w)\<rparr>,
                         w\<lparr>pds := (pds w)(p := (pds w p)\<lparr>ntasks_running :=
                                                  ntasks_running (pds w p) + 1\<rparr>)\<rparr>)))"

text \<open>
  The statement "the last task enforces the pds_final buffer to be dereferenced"
  (it stands after the attachment, in the unfinished part of the source).
\<close>

definition dereference_by_last_task :: "GpuPreAggTask \<Rightarrow> world \<Rightarrow> failure + world" where
  "dereference_by_last_task gpreagg w =
     (if is_last_task gpreagg
      then (case pds_final gpreagg of
              None \<Rightarrow> Inl (NullDereference ''gpreagg->pds_final->is_dereferenced'')
            | Some p \<Rightarrow>
                Inr (w\<lparr>pds := (pds w)(p := (pds w p)\<lparr>is_dereferenced := True\<rparr>),
                       gpa_sstate := (gpa_sstate w)\<lparr>pds_final_sstate := None,
                                                    m_fhash_sstate := 0,
                                                    m_kds_final_sstate := 0\<rparr>\<rparr>))
      else Inr w)"




text \<open>
  \<open>gpupreagg_process_reduction_task\<close>, as far as the shared state is concerned: once the
  device memory of the task is allocated, the task must hold the device memory of its
  final buffer (the \<open>Assert\<close> of line 3703); then the task is counted under its mode
  (lines 3716 to 3731, \<open>count_reduction_task\<close>), and the kernel is launched. The
  allocation and the launch are taken to succeed.
\<close>

definition count_reduction_task ::
  "reduction_mode \<Rightarrow> GpuPreAggSharedState \<Rightarrow> failure + GpuPreAggSharedState" where
  "count_reduction_task m s =
     (if m = GPUPREAGG_NOGROUP_REDUCTION then Inr (s\<lparr>n_tasks_nogrp := n_tasks_nogrp s + 1\<rparr>)
      else if m = GPUPREAGG_LOCAL_REDUCTION then Inr (s\<lparr>n_tasks_local := n_tasks_local s + 1\<rparr>)
      else if m = GPUPREAGG_GLOBAL_REDUCTION then Inr (s\<lparr>n_tasks_global := n_tasks_global s + 1\<rparr>)
      else if m = GPUPREAGG_FINAL_REDUCTION then Inr (s\<lparr>n_tasks_final := n_tasks_final s + 1\<rparr>)
      else Inl (ElogError ''Bug? unexpected reduction mode''))"

definition gpupreagg_process_reduction_task ::
  "GpuPreAggTask \<Rightarrow> GpuPreAggSharedState \<Rightarrow> failure + GpuPreAggSharedState" where
  "gpupreagg_process_reduction_task gpreagg s =
     (if m_kds_final gpreagg = 0 \<or> m_fhash gpreagg = 0
      then Inl (AssertFailed ''gpreagg->m_kds_final != 0UL && gpreagg->m_fhash != 0UL'')
      else count_reduction_task (reduction_mode gpreagg) s)"

text \<open>
  \<open>gpupreagg_respond_task\<close>: \<open>status\<close> is \<open>None\<close> for CUDA_SUCCESS, else the CUDA
  error code. The result is the task, the shared state and \<open>is_urgent\<close>.
\<close>

definition gpupreagg_respond_task ::
  "int option \<Rightarrow> GpuPreAggTask \<Rightarrow> GpuPreAggSharedState \<Rightarrow>
   GpuPreAggTask \<times> GpuPreAggSharedState \<times> bool" where
  "gpupreagg_respond_task status gpreagg s =
     (case status of
        None \<Rightarrow>
          (let g = gpreagg\<lparr>task_kerror := kern_kerror gpreagg\<rparr> in
           if task_kerror g = StromError_Success
           then (let s1 = s\<lparr>f_nitems := f_nitems s + num_groups g,
                            f_extra_sz := f_extra_sz s + varlena_usage g\<rparr>;
                     s2 = s1\<lparr>last_ngroups := exec_ngroups s1,
                             exec_ngroups := max (exec_ngroups s1) (f_nitems s1),
                             last_extra_sz := exec_extra_sz s1,
                             exec_extra_sz := max (exec_extra_sz s1) (f_extra_sz s1)\<rparr>
                 in (g, s2, False))
           else (g, s, True))
      | Some code \<Rightarrow> (gpreagg\<lparr>task_kerror := StromError_Other code\<rparr>, s, True))"


section \<open>Construction of tasks\<close>

text \<open>
  \<open>GpuPreAggState\<close>, with what its row source will deliver: \<open>scan_chunks\<close> are the
  chunks that \<open>gpuscanExecScanChunk\<close> returns one by one (NULL once the list is empty),
  \<open>outer_tuples\<close> the tuples that \<open>ExecProcNode\<close> returns (a null slot once the list
  is empty). \<open>nvme_sstate\<close> is NULL or holds \<open>nrows_per_block\<close>.
  \<open>plan_ngroups_gpas\<close> is the planner's estimate of the number of groups, which
  \<open>cost_gpupreagg\<close> hands down with \<open>num_group_keys\<close>. The fields that the task or
  the shared state also have carry the suffix \<open>_gpas\<close>.
\<close>

record GpuPreAggState =
  ss_currentRelation :: bool
  scan_chunks :: "pgstrom_data_store list"
  outer_pds :: "pgstrom_data_store option"
  outer_tuples :: "nat list"
  scan_overflow :: "nat option"
  scan_done :: bool
  nvme_sstate :: "32 word option"
  num_group_keys :: int
  plan_ngroups_gpas :: cl_double
  key_dist_salt_gpas :: "32 word"
  kern_params_length :: nat
  natts :: nat







definition get_gpupreagg_shared_state ::
  "GpuPreAggSharedState \<Rightarrow> failure + GpuPreAggSharedState" where
  "get_gpupreagg_shared_state s =
     (if sint (refcnt s) > 0 then Inr (s\<lparr>refcnt := refcnt s + 1\<rparr>)
      else Inl (AssertFailed ''refcnt_old > 0''))"

text \<open>
  \<open>gpupreagg_create_task\<close>. The first statement reads \<open>pds_in->kds.nitems\<close>: on a
  NULL \<open>pds_in\<close> the process dies there.
\<close>

definition gpupreagg_create_task ::
  "layout \<Rightarrow> GpuPreAggState \<Rightarrow> GpuPreAggSharedState \<Rightarrow> pgstrom_data_store option \<Rightarrow>
   bool \<Rightarrow> failure + (GpuPreAggTask \<times> GpuPreAggSharedState)" where
  "gpupreagg_create_task L gpas s pds_in_arg is_last_task_arg =
     (case pds_in_arg of
        None \<Rightarrow> Inl (NullDereference ''pds_in->kds.nitems'')
      | Some pin \<Rightarrow>
          on_ok (if format (kds pin) = KDS_FORMAT_BLOCK
                 then (case nvme_sstate gpas of
                         None \<Rightarrow> Inl (AssertFailed ''gpas->gts.nvme_sstate != NULL'')
                       | Some nrows_per_block \<Rightarrow>
                           Inr (nblocks_uncached pin > 0, nitems (kds pin) * nrows_per_block))
                 else Inr (False, nitems (kds pin)))
            (\<lambda>(with_nvme, nitems_real_v).
               on_ok (get_gpupreagg_shared_state s) (\<lambda>s'.
                 let kresults_1 = STROMALIGN L (offsetof_kparams L + kern_params_length gpas);
                     kds_len = STROMALIGN L (offsetof_colmeta L (natts gpas)) +
                               STROMALIGN L (LONGALIGN L ((sizeof_Datum L + sizeof_char L) *
                                                          natts gpas) * unat nitems_real_v)
                 in Inr (zeroed_task
                           \<lparr>with_nvme_strom := with_nvme,
                            is_last_task := is_last_task_arg,
                            is_retry := False,
                            pds_in := Some pin,
                            pds_final := None,
                            reduction_mode := (if num_group_keys gpas = 0
                                               then GPUPREAGG_NOGROUP_REDUCTION
                                               else GPUPREAGG_INVALID_REDUCTION),
                            nitems_real := nitems_real_v,
                            key_dist_salt := key_dist_salt_gpas gpas,
                            hash_size := nitems_real_v,
                            kresults_1_offset := kresults_1,
                            kresults_2_offset :=
                              STROMALIGN L (kresults_1 + offsetof_results L (unat nitems_real_v)),
                            kds_slot := \<lparr>kds_length = kds_len, usage = 0,
                                         ncols = of_nat (natts gpas), nitems = 0,
                                         nrooms = nitems_real_v, format = KDS_FORMAT_SLOT\<rparr>\<rparr>,
                         s'))))"

text \<open>
  The loop of \<open>gpupreagg_next_task\<close> over the tuples of the outer plan, once a pending
  \<open>scan_overflow\<close> slot has been taken. \<open>PDS_create_row\<close> and \<open>PDS_insert_tuple\<close>
  belong to the data store module: \<open>new_store\<close> is the empty row store,
  \<open>insert_tuple\<close> returns the store with the tuple added, or \<open>None\<close> when it does not
  fit. The result is (\<open>pds\<close>, \<open>scan_overflow\<close>, tuples left, \<open>scan_done\<close>).
\<close>

fun next_task_load ::
  "pgstrom_data_store \<Rightarrow> (pgstrom_data_store \<Rightarrow> nat \<Rightarrow> pgstrom_data_store option) \<Rightarrow>
   nat list \<Rightarrow> pgstrom_data_store option \<Rightarrow>
   pgstrom_data_store option \<times> nat option \<times> nat list \<times> bool" where
  "next_task_load new_store insert_tuple [] pds_v = (pds_v, None, [], True)"
| "next_task_load new_store insert_tuple (slot # rest) pds_v =
     (let pds1 = (case pds_v of None \<Rightarrow> new_store | Some x \<Rightarrow> x)
      in case insert_tuple pds1 slot of
           None \<Rightarrow> (Some pds1, Some slot, rest, False)
         | Some pds2 \<Rightarrow> next_task_load new_store insert_tuple rest (Some pds2))"

text \<open>
  \<open>gpupreagg_next_task\<close>. With a relation to scan the next chunk is read ahead; else
  the tuples of the outer plan are loaded into a row store that is created on demand. A
  slot waiting in \<open>scan_overflow\<close> is taken and cleared by the first turn of the loop,
  which then goes on to the next turn. In both cases the function ends in
  \<open>gpupreagg_create_task(gpas, pds, filedesc, is_last_task)\<close>, whatever \<open>pds\<close> is.
\<close>

definition gpupreagg_next_task ::
  "layout \<Rightarrow> pgstrom_data_store \<Rightarrow>
   (pgstrom_data_store \<Rightarrow> nat \<Rightarrow> pgstrom_data_store option) \<Rightarrow>
   GpuPreAggState \<Rightarrow> GpuPreAggSharedState \<Rightarrow>
   failure + (GpuPreAggTask \<times> GpuPreAggState \<times> GpuPreAggSharedState)" where
  "gpupreagg_next_task L new_store insert_tuple gpas s =
     (if ss_currentRelation gpas
      then
        (let gpas1 = (if outer_pds gpas = None
                      then gpas\<lparr>outer_pds := (case scan_chunks gpas of [] \<Rightarrow> None
                                                | c # _ \<Rightarrow> Some c),
                                scan_chunks := tl (scan_chunks gpas)\<rparr>
                      else gpas);
             pds_v = outer_pds gpas1;
             gpas2 = (if pds_v \<noteq> None
                      then gpas1\<lparr>outer_pds := (case scan_chunks gpas1 of [] \<Rightarrow> None
                                                 | c # _ \<Rightarrow> Some c),
                                 scan_chunks := tl (scan_chunks gpas1)\<rparr>
                      else gpas1\<lparr>outer_pds := None\<rparr>);
             is_last = (outer_pds gpas2 = None)
         in on_ok (gpupreagg_create_task L gpas2 s pds_v is_last)
              (\<lambda>(g, s'). Inr (g, gpas2, s')))
      else
        (case next_task_load new_store insert_tuple (outer_tuples gpas) None of
           (pds_v, overflow, rest, done) \<Rightarrow>
             let gpas2 = gpas\<lparr>scan_overflow := overflow, outer_tuples := rest,
                              scan_done := (scan_done gpas \<or> done)\<rparr>;
                 is_last = (scan_overflow gpas2 = None)
             in on_ok (gpupreagg_create_task L gpas2 s pds_v is_last)
                  (\<lambda>(g, s'). Inr (g, gpas2, s'))))"

section \<open>The life of one final buffer\<close>

text \<open>
  The events that touch the final buffer at address \<open>p\<close>, whose device memory is
  \<open>d\<close>:
  \<^item> \<open>EvAttach g\<close>: task \<open>g\<close> runs \<open>gpupreagg_setup_strategy\<close> while the shared state
    points to the buffer, and dereferences the buffer if it is the last task;
  \<^item> \<open>EvComplete g\<close>: \<open>gpupreagg_complete_task\<close> runs for a reduction task \<open>g\<close>
    that holds the buffer; a task that comes back as the terminator (return value 1,
    mode ONLY_TERMINATION) waits in \<open>requeued\<close>;
  \<^item> \<open>EvTerminateRequeued\<close>, \<open>EvTerminatePushed\<close>: \<open>gpupreagg_complete_task\<close> runs
    for the terminator that waits in \<open>requeued\<close>, or for the clone that
    \<open>gpupreagg_push_terminator_task\<close> pushed.
\<close>

datatype pds_event =
    EvAttach GpuPreAggTask
  | EvComplete GpuPreAggTask
  | EvTerminateRequeued
  | EvTerminatePushed

record sys =
  world_of :: world
  requeued :: "GpuPreAggTask list"

text \<open>The creation of another buffer is no event of this buffer.\<close>

definition no_create_final ::
  "GpuPreAggTask \<Rightarrow> world \<Rightarrow> failure + (GpuPreAggTask \<times> world)" where
  "no_create_final g w = Inl (ElogError ''creation of a final buffer'')"

definition pds_enabled :: "nat \<Rightarrow> 64 word \<Rightarrow> pds_event \<Rightarrow> sys \<Rightarrow> bool" where
  "pds_enabled p d ev s =
     (case ev of
        EvAttach g \<Rightarrow> pds_final_sstate (gpa_sstate (world_of s)) = Some p
      | EvComplete g \<Rightarrow> pds_final g = Some p \<and> m_kds_final g = d \<and> m_kds_in g \<noteq> d \<and>
                        reduction_mode g \<noteq> GPUPREAGG_ONLY_TERMINATION
      | EvTerminateRequeued \<Rightarrow> requeued s \<noteq> []
      | EvTerminatePushed \<Rightarrow> pushed_tasks (world_of s) \<noteq> [])"

definition pds_step :: "layout \<Rightarrow> int \<Rightarrow> pds_event \<Rightarrow> sys \<Rightarrow> failure + sys" where
  "pds_step L maxthreads ev s =
     (case ev of
        EvAttach g \<Rightarrow>
          on_ok (gpupreagg_setup_strategy no_create_final maxthreads g (world_of s))
            (\<lambda>(g', w'). on_ok (dereference_by_last_task g' w')
               (\<lambda>w''. Inr (s\<lparr>world_of := w''\<rparr>)))
      | EvComplete g \<Rightarrow>
          on_ok (gpupreagg_complete_task L g (world_of s))
            (\<lambda>(retval, g', w').
               Inr (s\<lparr>world_of := w',
                      requeued := (if retval = 1 \<and>
                                      reduction_mode g' = GPUPREAGG_ONLY_TERMINATION
                                   then requeued s @ [g'] else requeued s)\<rparr>))
      | EvTerminateRequeued \<Rightarrow>
          on_ok (gpupreagg_complete_task L (hd (requeued s)) (world_of s))
            (\<lambda>(retval, g', w'). Inr (s\<lparr>world_of := w', requeued := tl (requeued s)\<rparr>))
      | EvTerminatePushed \<Rightarrow>
          on_ok (gpupreagg_complete_task L (hd (pushed_tasks (world_of s)))
                   ((world_of s)\<lparr>pushed_tasks := tl (pushed_tasks (world_of s))\<rparr>))
            (\<lambda>(retval, g', w'). Inr (s\<lparr>world_of := w'\<rparr>)))"

text \<open>
  A run of events; \<open>None\<close> when an event is not enabled or the code fails (a failed
  \<open>Assert\<close>, a NULL dereference).
\<close>

fun pds_run ::
  "layout \<Rightarrow> int \<Rightarrow> nat \<Rightarrow> 64 word \<Rightarrow> pds_event list \<Rightarrow> sys \<Rightarrow> sys option" where
  "pds_run L maxthreads p d [] s = Some s"
| "pds_run L maxthreads p d (ev # evs) s =
     (if pds_enabled p d ev s
      then (case pds_step L maxthreads ev s of
              Inl _ \<Rightarrow> None
            | Inr s' \<Rightarrow> pds_run L maxthreads p d evs s')
      else None)"

text \<open>
  The buffer as its first task leaves it: one running task, not dereferenced, shared
  through the shared state, its device memory allocated, no terminator around.
\<close>

definition fresh_buffer :: "nat \<Rightarrow> 64 word \<Rightarrow> sys \<Rightarrow> bool" where
  "fresh_buffer p d s =
     (ntasks_running (pds (world_of s) p) = 1 \<and>
      \<not> is_dereferenced (pds (world_of s) p) \<and>
      pds_final_sstate (gpa_sstate (world_of s)) = Some p \<and>
      d \<noteq> 0 \<and> d \<notin> set (gpu_mem_freed (world_of s)) \<and>
      pushed_tasks (world_of s) = [] \<and> requeued s = [])"

definition terminator_fired :: "sys \<Rightarrow> bool" where
  "terminator_fired s = (requeued s \<noteq> [] \<or> pushed_tasks (world_of s) \<noteq> [])"

definition device_memory_released :: "64 word \<Rightarrow> sys \<Rightarrow> bool" where
  "device_memory_released d s = (d \<in> set (gpu_mem_freed (world_of s)))"

definition buffer_freed :: "64 word \<Rightarrow> sys \<Rightarrow> bool" where
  "buffer_freed d s = (terminator_fired s \<or> device_memory_released d s)"

text \<open>
  The invariant of the runs of events on a buffer. \<open>k\<close> bounds the counter (it
  grows by one with each event); the terminators around all hold the buffer and its
  device memory, and there is at most one of them.
\<close>

definition pds_inv :: "nat \<Rightarrow> 64 word \<Rightarrow> nat \<Rightarrow> sys \<Rightarrow> bool" where
  "pds_inv p d k s =
     (unat (ntasks_running (pds (world_of s) p)) \<le> k \<and>
      d \<noteq> 0 \<and>
      (is_dereferenced (pds (world_of s) p) \<longrightarrow>
         pds_final_sstate (gpa_sstate (world_of s)) \<noteq> Some p) \<and>
      (\<forall>t \<in> set (requeued s @ pushed_tasks (world_of s)).
         pds_final t = Some p \<and> m_kds_final t = d \<and>
         reduction_mode t = GPUPREAGG_ONLY_TERMINATION) \<and>
      length (requeued s @ pushed_tasks (world_of s)) \<le> 1 \<and>
      (d \<in> set (gpu_mem_freed (world_of s)) \<longrightarrow>
         requeued s = [] \<and> pushed_tasks (world_of s) = []) \<and>
      (buffer_freed d s \<longleftrightarrow>
         ntasks_running (pds (world_of s) p) = 0 \<and> is_dereferenced (pds (world_of s) p)))"


section \<open>The shared state over the life of one final buffer\<close>

text \<open>
  The functions of gpupreagg.c that write the shared state while tasks run on one final
  buffer, as events:
  \<^item> \<open>TaskCreate gpas pds_in is_last_task\<close>: \<open>gpupreagg_create_task\<close> builds a
    task, which takes a reference to the shared state;
  \<^item> \<open>TaskSetup g\<close>: \<open>gpupreagg_setup_strategy\<close> runs for task \<open>g\<close> and attaches it
    to the buffer (no other buffer is created), and the last task dereferences it;
  \<^item> \<open>TaskLaunch g\<close>: \<open>gpupreagg_process_reduction_task\<close> counts task \<open>g\<close> under
    its mode and launches it;
  \<^item> \<open>TaskRespond status g\<close>: \<open>gpupreagg_respond_task\<close> runs for task \<open>g\<close>;
  \<^item> \<open>TaskComplete g\<close>: \<open>gpupreagg_complete_task\<close> runs for task \<open>g\<close>.

  The events of a run may concern any tasks in any order.
\<close>

datatype task_event =
    TaskCreate GpuPreAggState "pgstrom_data_store option" bool
  | TaskSetup GpuPreAggTask
  | TaskLaunch GpuPreAggTask
  | TaskRespond "int option" GpuPreAggTask
  | TaskComplete GpuPreAggTask

definition task_step :: "layout \<Rightarrow> int \<Rightarrow> task_event \<Rightarrow> world \<Rightarrow> failure + world" where
  "task_step L devBaselineMaxThreadsPerBlock ev w =
     (case ev of
        TaskCreate gpas pds_in_arg is_last \<Rightarrow>
          on_ok (gpupreagg_create_task L gpas (gpa_sstate w) pds_in_arg is_last)
            (\<lambda>(g, s'). Inr (w\<lparr>gpa_sstate := s'\<rparr>))
      | TaskSetup g \<Rightarrow>
          on_ok (gpupreagg_setup_strategy no_create_final devBaselineMaxThreadsPerBlock g w)
            (\<lambda>(g', w'). dereference_by_last_task g' w')
      | TaskLaunch g \<Rightarrow>
          on_ok (gpupreagg_process_reduction_task g (gpa_sstate w))
            (\<lambda>s'. Inr (w\<lparr>gpa_sstate := s'\<rparr>))
      | TaskRespond status g \<Rightarrow>
          Inr (w\<lparr>gpa_sstate := fst (snd (gpupreagg_respond_task status g (gpa_sstate w)))\<rparr>)
      | TaskComplete g \<Rightarrow>
          on_ok (gpupreagg_complete_task L g w) (\<lambda>(retval, g', w'). Inr w'))"

fun task_run :: "layout \<Rightarrow> int \<Rightarrow> task_event list \<Rightarrow> world \<Rightarrow> world option" where
  "task_run L mt [] w = Some w"
| "task_run L mt (ev # evs) w =
     (case task_step L mt ev w of
        Inl _ \<Rightarrow> None
      | Inr w' \<Rightarrow> task_run L mt evs w')"




section \<open>Concrete states\<close>

text \<open>
  A layout (16-byte \<open>STROMALIGN\<close>, 8-byte \<open>LONGALIGN\<close> and \<open>Datum\<close>), a final buffer
  at address 0 with device memory at 4096 that one task is running on, and the shared
  state that points to it.
\<close>

definition align_to :: "nat \<Rightarrow> nat \<Rightarrow> nat" where
  "align_to a n = ((n + a - 1) div a) * a"

definition example_layout :: layout where
  "example_layout =
     \<lparr>STROMALIGN = align_to 16, LONGALIGN = align_to 8,
      offsetof_colmeta = (\<lambda>n. 64 + 16 * n), offsetof_results = (\<lambda>n. 16 + 4 * n),
      offsetof_kparams = 128, sizeof_Datum = 8, sizeof_char = 1\<rparr>"

definition example_pds :: pgstrom_data_store where
  "example_pds = \<lparr>nblocks_uncached = 0, ntasks_running = 1, is_dereferenced = False,
                  kds = zeroed_kds\<lparr>format := KDS_FORMAT_SLOT\<rparr>\<rparr>"

definition example_sstate :: GpuPreAggSharedState where
  "example_sstate =
     \<lparr>refcnt = 1, pds_final_sstate = Some 0, m_kds_final_sstate = 4096, m_fhash_sstate = 8192,
      f_ncols = 2, f_nrooms = 1000, f_nitems = 0, f_extra_sz = 0,
      n_tasks_nogrp = 0, n_tasks_local = 0, n_tasks_global = 0, n_tasks_final = 0,
      plan_ngroups = 0, exec_ngroups = 0, last_ngroups = 0,
      exec_extra_sz = 0, last_extra_sz = 0\<rparr>"

definition example_world :: world where
  "example_world =
     \<lparr>gpa_sstate = example_sstate, pds = (\<lambda>_. example_pds),
      gpu_mem_freed = [], gpu_iomap_freed = [], pushed_tasks = []\<rparr>"

definition example_sys :: sys where
  "example_sys = \<lparr>world_of = example_world, requeued = []\<rparr>"

text \<open>An input chunk of 1000 rows in row format, and the task of a query without grouping keys on it.\<close>

definition example_input :: pgstrom_data_store where
  "example_input = \<lparr>nblocks_uncached = 0, ntasks_running = 0, is_dereferenced = False,
                    kds = zeroed_kds\<lparr>nitems := 1000, format := KDS_FORMAT_ROW\<rparr>\<rparr>"

definition last_task :: GpuPreAggTask where
  "last_task = zeroed_task\<lparr>is_last_task := True, pds_in := Some example_input,
                           reduction_mode := GPUPREAGG_NOGROUP_REDUCTION,
                           nitems_real := 1000, hash_size := 1000\<rparr>"

text \<open>
  A reduction task that holds the buffer, as it comes back from the device with the
  error code \<open>e\<close> and the flag \<open>progress_final\<close>.
\<close>

definition running_task :: "strom_errcode \<Rightarrow> bool \<Rightarrow> GpuPreAggTask" where
  "running_task e progress =
     zeroed_task\<lparr>task_kerror := e, kern_kerror := e, progress_final := progress,
                 m_gpreagg := 16384, m_kds_in := 20480, m_kds_slot := 24576, m_ghash := 28672,
                 m_kds_final := 4096, m_fhash := 8192,
                 pds_in := Some example_input, pds_final := Some 0,
                 kds_slot := zeroed_kds\<lparr>ncols := 2, nrooms := 1000, format := KDS_FORMAT_SLOT\<rparr>,
                 reduction_mode := GPUPREAGG_FINAL_REDUCTION,
                 nitems_real := 1000, hash_size := 1000\<rparr>"

text \<open>
  The last task attaches and dereferences the buffer; the two tasks on the buffer
  complete without error, the second as the terminator; the terminator completes.
\<close>

definition example_events :: "pds_event list" where
  "example_events =
     [EvAttach last_task,
      EvComplete (running_task StromError_Success False),
      EvComplete (running_task StromError_Success False),
      EvTerminateRequeued]"

text \<open>
  A scan state over the result of an outer plan that yields no tuple, and one over a
  relation whose scan yields no chunk; a row store that takes any tuple.
\<close>

definition empty_outer_plan :: GpuPreAggState where
  "empty_outer_plan =
     \<lparr>ss_currentRelation = False, scan_chunks = [], outer_pds = None, outer_tuples = [],
      scan_overflow = None, scan_done = False, nvme_sstate = None,
      num_group_keys = 1, plan_ngroups_gpas = 300, key_dist_salt_gpas = 1,
      kern_params_length = 64, natts = 2\<rparr>"

definition empty_relation :: GpuPreAggState where
  "empty_relation = empty_outer_plan\<lparr>ss_currentRelation := True\<rparr>"

definition insert_any :: "pgstrom_data_store \<Rightarrow> nat \<Rightarrow> pgstrom_data_store option" where
  "insert_any store slot = Some (store\<lparr>kds := (kds store)\<lparr>nitems := nitems (kds store) + 1\<rparr>\<rparr>)"

definition empty_row_store :: pgstrom_data_store where
  "empty_row_store = \<lparr>nblocks_uncached = 0, ntasks_running = 0, is_dereferenced = False,
                      kds = zeroed_kds\<lparr>format := KDS_FORMAT_ROW\<rparr>\<rparr>"


text \<open>
  A chunk of \<open>n\<close> rows in row format, and the task that \<open>gpupreagg_create_task\<close>
  builds on it for the plan of the example (a query with a grouping key, for which the
  planner expects 300 groups). \<open>set_up m g\<close> is the task as
  \<open>gpupreagg_setup_strategy\<close> leaves it, with the mode \<open>m\<close> and attached to the buffer
  at address 0 and to its device memory; \<open>answered e k g\<close> is the launched task as
  the device hands it back, with the device memory of its own that the launch allocated
  and with the error code \<open>e\<close> and \<open>k\<close> groups in the header that is copied back from
  the device; \<open>responded e k g\<close> is that task once \<open>gpupreagg_respond_task\<close> has run.
\<close>

definition chunk :: "32 word \<Rightarrow> pgstrom_data_store" where
  "chunk n = example_input\<lparr>kds := (kds example_input)\<lparr>nitems := n\<rparr>\<rparr>"

definition task_of :: "32 word \<Rightarrow> GpuPreAggTask" where
  "task_of n =
     (case gpupreagg_create_task example_layout empty_outer_plan example_sstate
             (Some (chunk n)) False of
        Inr (g, s) \<Rightarrow> g | Inl _ \<Rightarrow> zeroed_task)"

definition set_up :: "reduction_mode \<Rightarrow> GpuPreAggTask \<Rightarrow> GpuPreAggTask" where
  "set_up m g =
     g\<lparr>reduction_mode := m, pds_final := Some 0, m_fhash := 8192, m_kds_final := 4096\<rparr>"

definition answered :: "strom_errcode \<Rightarrow> 32 word \<Rightarrow> GpuPreAggTask \<Rightarrow> GpuPreAggTask" where
  "answered e k g =
     g\<lparr>m_gpreagg := 16384, m_kds_in := 20480, m_kds_slot := 24576, m_ghash := 28672,
       kern_kerror := e, num_groups := k\<rparr>"

definition responded :: "strom_errcode \<Rightarrow> 32 word \<Rightarrow> GpuPreAggTask \<Rightarrow> GpuPreAggTask" where
  "responded e k g = (answered e k g)\<lparr>task_kerror := e\<rparr>"




definition world_after :: "task_event list \<Rightarrow> world" where
  "world_after evs =
     (case task_run example_layout 1024 evs example_world of
        Some w \<Rightarrow> w | None \<Rightarrow> example_world)"

text \<open>
  A task on a chunk of 12000 rows is created, set up and launched in LOCAL mode. In
  \<open>two_launched_one_completed\<close> two such tasks are launched; the first has answered
  with 9000 groups and is completed, the second is still running.
\<close>

definition one_launched :: "task_event list" where
  "one_launched =
     [TaskCreate empty_outer_plan (Some (chunk 12000)) False,
      TaskSetup (task_of 12000),
      TaskLaunch (set_up GPUPREAGG_LOCAL_REDUCTION (task_of 12000))]"


text \<open>
  The launched task as it comes back from the device with the error code \<open>e\<close>, no
  group found and the final buffer not touched.
\<close>

definition returned_task :: "strom_errcode \<Rightarrow> GpuPreAggTask" where
  "returned_task e = responded e 0 (set_up GPUPREAGG_LOCAL_REDUCTION (task_of 12000))"










section \<open>Projection code of one device column\<close>

text \<open>
  \<open>devtype_info\<close> is declared outside gpupreagg.c. Of its fields the projection
  generator reads the name of the device type and three C literals (NULL when the type
  has none): \<open>max_const\<close>, the largest value of the type, \<open>min_const\<close>, its
  smallest value, and \<open>zero_const\<close>, its zero.
\<close>

record devtype_info =
  type_oid :: Oid
  type_name :: string
  max_const :: "string option"
  min_const :: "string option"
  zero_const :: "string option"

text \<open>
  What the loop over the device columns appends to the function body for one column.
  The variable that holds the column's value is \<open>KVAR_n\<close> for a reference to input
  column \<open>n\<close>, else \<open>temp.T_v\<close>, assigned from the code of the expression:
  \<^verbatim>\<open>  dst_isnull[i] = V.isnull;\<close>
  \<^verbatim>\<open>  if (!V.isnull)\<close>
  \<^verbatim>\<open>    dst_values[i] = pg_T_to_datum(V.value);\<close>
  and, for an argument of an aggregate (\<open>action >= ALTFUNC_EXPR_NROWS\<close>),
  \<^verbatim>\<open>  else\<close>
  \<^verbatim>\<open>    dst_values[i] = pg_T_to_datum(C);\<close>
  \<open>proj_column\<close> holds \<open>i\<close>, \<open>V\<close>, the code assigned to a temporary \<open>V\<close>, \<open>T\<close>
  and \<open>C\<close>.
\<close>

datatype kvar_label = KVAR nat | TEMP string

record proj_column =
  dst_index :: int
  kvar :: kvar_label
  temp_code :: "string option"
  datum_type :: string
  null_const_value :: "string option"

text \<open>The \<open>switch (action)\<close> that picks the literal stored for a NULL input.\<close>

definition null_const_value_of :: "devtype_info \<Rightarrow> int \<Rightarrow> string option" where
  "null_const_value_of dtype action =
     (if action = ALTFUNC_EXPR_PMIN then min_const dtype
      else if action = ALTFUNC_EXPR_PMAX then max_const dtype
      else zero_const dtype)"

text \<open>
  The body of the loop \<open>forboth (lc1, tlist_alt, lc2, tlist_dev_action)\<close> of
  \<open>gpupreagg_codegen_projection\<close>. The lookup of device types and the code generator
  of expressions belong to codegen.c and are parameters. The entries of \<open>tlist_alt\<close>
  hold expressions, whose references to input columns are \<open>Var\<close> nodes (of
  \<open>INDEX_VAR\<close>, which the source asserts); an aggregate call does not occur in the
  device target list, and the model fails on one as on an unknown type.
\<close>

definition gpupreagg_codegen_projection_column ::
  "(Oid \<Rightarrow> devtype_info option) \<Rightarrow> (Expr \<Rightarrow> string) \<Rightarrow> TargetEntry \<Rightarrow> int \<Rightarrow>
   failure + proj_column" where
  "gpupreagg_codegen_projection_column pgstrom_devtype_lookup pgstrom_codegen_expression
     tle action =
     (case expr tle of
        AggrefNode _ \<Rightarrow> Inl (ElogError ''device type lookup failed'')
      | ExprNode e \<Rightarrow>
          (case pgstrom_devtype_lookup (exprType e) of
             None \<Rightarrow> Inl (ElogError ''device type lookup failed'')
           | Some dtype \<Rightarrow>
               let col = (case e of
                            Var _ varattno \<Rightarrow>
                              \<lparr>dst_index = resno tle - 1, kvar = KVAR varattno,
                               temp_code = None, datum_type = type_name dtype,
                               null_const_value = None\<rparr>
                          | _ \<Rightarrow>
                              \<lparr>dst_index = resno tle - 1, kvar = TEMP (type_name dtype),
                               temp_code = Some (pgstrom_codegen_expression e),
                               datum_type = type_name dtype,
                               null_const_value = None\<rparr>)
               in if action \<ge> ALTFUNC_EXPR_NROWS
                  then (case null_const_value_of dtype action of
                          None \<Rightarrow> Inl (ElogError ''Bug? unable to use type in GpuPreAgg'')
                        | Some c \<Rightarrow> Inr (col\<lparr>null_const_value := Some c\<rparr>))
                  else Inr col))"

text \<open>
  What the generated statements leave in the destination slot, given the value of the
  column's variable (\<open>None\<close> when it is NULL): the null flag, and the value stored, a
  converted input value, a literal, or nothing (the cell keeps what it held).
\<close>

datatype slot_value = StoredValue int | StoredLiteral string | NotStored

definition run_proj_column :: "proj_column \<Rightarrow> int option \<Rightarrow> bool \<times> slot_value" where
  "run_proj_column col v =
     (case v of
        Some x \<Rightarrow> (False, StoredValue x)
      | None \<Rightarrow> (True, (case null_const_value col of
                          Some c \<Rightarrow> StoredLiteral c
                        | None \<Rightarrow> NotStored)))"

text \<open>The device type of int4 and the device column of MAX(x) or MIN(x) over an int4 column.\<close>

definition int4_devtype :: devtype_info where
  "int4_devtype = \<lparr>type_oid = INT4OID, type_name = ''int4'',
                   max_const = Some ''INT_MAX'', min_const = Some ''INT_MIN'',
                   zero_const = Some ''0''\<rparr>"

definition only_int4 :: "Oid \<Rightarrow> devtype_info option" where
  "only_int4 t = (if t = INT4OID then Some int4_devtype else None)"

definition no_expression_code :: "Expr \<Rightarrow> string" where
  "no_expression_code e = []"

definition int4_column :: TargetEntry where
  "int4_column = makeTargetEntry (ExprNode (Var INT4OID 1)) 1 None False"

text \<open>The projected columns, if the generator does not fail.\<close>

definition projected :: "failure + proj_column \<Rightarrow> int option \<Rightarrow> (bool \<times> slot_value) option" where
  "projected r v = (case r of Inl _ \<Rightarrow> None | Inr col \<Rightarrow> Some (run_proj_column col v))"

section \<open>The device columns of a target list\<close>

text \<open>
  The device columns as pairs of action tag and expression, in the order of the device
  target list; the action tags from \<open>ALTFUNC_EXPR_NROWS\<close> on mark the arguments of
  aggregates (the test the code generator uses).
\<close>

definition device_columns :: "tlist_state \<Rightarrow> (int \<times> Node) list" where
  "device_columns st = (case st of (tlist_host, tlist_dev, tlist_dev_action) \<Rightarrow>
                          zip tlist_dev_action (map expr tlist_dev))"

definition aggfn_arg_column :: "int \<times> Node \<Rightarrow> bool" where
  "aggfn_arg_column c = (fst c \<ge> ALTFUNC_EXPR_NROWS)"

text \<open>
  Specification: the device columns a target list asks for, before any sharing. An
  aggregate asks for one column for each partial-state role of its catalog entry,
  except the NULL placeholder; an entry that is no aggregate asks for one column, a
  grouping key or a plain value.
\<close>

definition wanted_altfn_column :: "syscache \<Rightarrow> Aggref \<Rightarrow> int \<times> Oid \<Rightarrow> (int \<times> Node) list" where
  "wanted_altfn_column sc aggref arg =
     (case arg of (action, argtype) \<Rightarrow>
        if action = ALTFUNC_CONST_NULL then []
        else (case on_ok (make_altfunc_expr aggref action)
                     (\<lambda>e. make_expr_typecast sc e argtype) of
                Inl _ \<Rightarrow> []
              | Inr e \<Rightarrow> [(action, ExprNode e)]))"

fun wanted_device_columns ::
  "syscache \<Rightarrow> PathTarget \<Rightarrow> nat \<Rightarrow> TargetEntry list \<Rightarrow> (int \<times> Node) list" where
  "wanted_device_columns sc target index [] = []"
| "wanted_device_columns sc target index (tle # rest) =
     (case expr tle of
        AggrefNode aggref \<Rightarrow>
          (case aggfunc_lookup_by_oid (PROCOID sc) (aggfnoid aggref) of
             Inr (Some aggfn_cat) \<Rightarrow>
               concat (map (wanted_altfn_column sc aggref)
                         (zip (take (altfn_nargs aggfn_cat) (altfn_argexprs aggfn_cat))
                              (take (altfn_nargs aggfn_cat) (altfn_argtypes aggfn_cat))))
           | _ \<Rightarrow> [])
      | ExprNode e \<Rightarrow>
          [(if (case sortgroupref_at target index of
                  Inr None \<Rightarrow> True | Inr (Some r) \<Rightarrow> r > 0 | Inl _ \<Rightarrow> False)
            then ALTFUNC_GROUPING_KEY else ALTFUNC_CONST_VALUE, ExprNode e)])
     @ wanted_device_columns sc target (index + 1) rest"

text \<open>The target entries that are no aggregates.\<close>

definition plain_entries :: "TargetEntry list \<Rightarrow> Node list" where
  "plain_entries tlist =
     map expr (filter (\<lambda>tle. case expr tle of AggrefNode _ \<Rightarrow> False | ExprNode _ \<Rightarrow> True) tlist)"

text \<open>
  Examples. A grouping key that the query selects twice (SELECT k, k ... GROUP BY 1, 2).
  SUM(x) and AVG(x) over an int4 column x, with the rows of pg_proc and pg_cast and the
  alternative function they need.
\<close>

definition group_key_twice :: "TargetEntry list" where
  "group_key_twice =
     [makeTargetEntry (ExprNode (Var INT4OID 1)) 1 None False,
      makeTargetEntry (ExprNode (Var INT4OID 1)) 2 None False]"

definition sum_and_avg :: "TargetEntry list" where
  "sum_and_avg =
     [makeTargetEntry (AggrefNode \<lparr>aggfnoid = 2108, aggtype = INT8OID,
                                   args = [Var INT4OID 1], aggfilter = None\<rparr>) 1 None False,
      makeTargetEntry (AggrefNode \<lparr>aggfnoid = 2101, aggtype = NUMERICOID,
                                   args = [Var INT4OID 1], aggfilter = None\<rparr>) 2 None False]"

definition example_syscache :: syscache where
  "example_syscache =
     \<lparr>PROCOID = (\<lambda>oid. if oid = 2108
                        then Some \<lparr>proname = ''sum'', pronargs = 1, proargtypes = [INT4OID]\<rparr>
                        else if oid = 2101
                        then Some \<lparr>proname = ''avg'', pronargs = 1, proargtypes = [INT4OID]\<rparr>
                        else None),
      CASTSOURCETARGET = (\<lambda>src dst. if src = INT4OID \<and> dst = INT8OID
                                      then Some \<lparr>castfunc = 481,
                                                 castmethod = COERCION_METHOD_FUNCTION\<rparr>
                                      else None),
      PROCNAMEARGSNSP = (\<lambda>name argtypes ns.
                           if name = ''pavg_int4'' \<and> argtypes = [INT8OID, INT8OID] \<and> ns = 16500
                           then Some \<lparr>altfn_oid = 16501, prorettype = 1016\<rparr>
                           else None),
      pgstrom_namespace = Some 16500\<rparr>"

text \<open>The device columns of a built target list, if the builder does not fail.\<close>

definition built_device_columns :: "failure + tlist_state \<Rightarrow> (int \<times> Node) list option" where
  "built_device_columns r = (case r of Inl _ \<Rightarrow> None | Inr st \<Rightarrow> Some (device_columns st))"

section \<open>Effects of gpupreagg_complete_task\<close>


lemma cleanup_not_terminator:
  "gpupreagg_cleanup_cuda_resources g False w = Inr (g', w') \<Longrightarrow>
     pds w' = pds w \<and> gpa_sstate w' = gpa_sstate w \<and> pushed_tasks w' = pushed_tasks w \<and>
     gpu_mem_freed w' = gpu_mem_freed w @ [m_kds_in g] \<and>
     g' = g\<lparr>m_gpreagg := 0, m_kds_in := 0, m_kds_slot := 0, m_ghash := 0,
            m_kds_final := 0, m_fhash := 0\<rparr>"
  by (auto simp: gpupreagg_cleanup_cuda_resources_def Let_def split: if_splits)

lemma cleanup_terminator:
  "gpupreagg_cleanup_cuda_resources g True w = Inr (g', w') \<Longrightarrow>
     pds w' = pds w \<and> gpa_sstate w' = gpa_sstate w \<and> pushed_tasks w' = pushed_tasks w \<and>
     gpu_mem_freed w' = gpu_mem_freed w @ [m_kds_in g, m_kds_final g] \<and> m_kds_final g \<noteq> 0"
  by (auto simp: gpupreagg_cleanup_cuda_resources_def Let_def split: if_splits)

lemma complete_terminator:
  assumes "gpupreagg_complete_task L g w = Inr (rv, g', w')"
    and "reduction_mode g = GPUPREAGG_ONLY_TERMINATION" and "pds_final g = Some p"
  shows "ntasks_running (pds w p) = 0 \<and> is_dereferenced (pds w p) \<and>
         pds w' = pds w \<and> gpa_sstate w' = gpa_sstate w \<and> pushed_tasks w' = pushed_tasks w \<and>
         gpu_mem_freed w' = gpu_mem_freed w @ [m_kds_in g, m_kds_final g] \<and> m_kds_final g \<noteq> 0"
  using assms
  by (auto simp: gpupreagg_complete_task_def on_ok_def split: if_splits sum.splits
      dest!: cleanup_terminator)

lemma complete_scenario1:
  assumes "gpupreagg_complete_task L g w = Inr (rv, g', w')"
    and "reduction_mode g \<noteq> GPUPREAGG_ONLY_TERMINATION"
    and "task_kerror g = StromError_DataStoreNoSpace" and "\<not> progress_final g"
  shows "pds w' = pds w \<and> gpa_sstate w' = gpa_sstate w \<and> pushed_tasks w' = pushed_tasks w \<and>
         gpu_mem_freed w' = gpu_mem_freed w @ [m_kds_in g] \<and> rv = 1 \<and>
         reduction_mode g' = reduction_mode g"
  using assms
  by (auto simp: gpupreagg_complete_task_def on_ok_def Let_def split: if_splits sum.splits
      dest!: cleanup_not_terminator)

lemma complete_scenario2:
  assumes "gpupreagg_complete_task L g w = Inr (rv, g', w')"
    and "reduction_mode g \<noteq> GPUPREAGG_ONLY_TERMINATION"
    and "task_kerror g = StromError_DataStoreNoSpace" and "progress_final g"
    and "pds_final g = Some p"
  shows "ntasks_running (pds w p) \<noteq> 0 \<and>
         pds w' = (pds w)(p := (pds w p)\<lparr>is_dereferenced := True,
                                         ntasks_running := ntasks_running (pds w p) - 1\<rparr>) \<and>
         pds_final_sstate (gpa_sstate w') \<noteq> Some p \<and>
         (if ntasks_running (pds w p) - 1 = 0
          then (\<exists>t. pushed_tasks w' = pushed_tasks w @ [t] \<and> pds_final t = Some p \<and>
                     m_kds_final t = m_kds_final g \<and>
                     reduction_mode t = GPUPREAGG_ONLY_TERMINATION)
          else pushed_tasks w' = pushed_tasks w) \<and>
         gpu_mem_freed w' = gpu_mem_freed w @ [m_kds_in g] \<and> rv = 1 \<and>
         reduction_mode g' = GPUPREAGG_FINAL_REDUCTION"
  using assms
  by (auto simp: gpupreagg_complete_task_def on_ok_def Let_def gpupreagg_push_terminator_task_def
      word_greater_zero_iff
      split: if_splits sum.splits prod.splits
      dest!: cleanup_not_terminator)

lemma complete_other:
  assumes "gpupreagg_complete_task L g w = Inr (rv, g', w')"
    and "reduction_mode g \<noteq> GPUPREAGG_ONLY_TERMINATION"
    and "task_kerror g \<noteq> StromError_DataStoreNoSpace"
    and "pds_final g = Some p"
  shows "ntasks_running (pds w p) \<noteq> 0 \<and>
         pds w' = (pds w)(p := (pds w p)\<lparr>ntasks_running := ntasks_running (pds w p) - 1\<rparr>) \<and>
         gpa_sstate w' = gpa_sstate w \<and> pushed_tasks w' = pushed_tasks w \<and>
         (if ntasks_running (pds w p) - 1 = 0 \<and> is_dereferenced (pds w p)
          then (rv = 1 \<and> reduction_mode g' = GPUPREAGG_ONLY_TERMINATION \<and>
                pds_final g' = Some p \<and> m_kds_final g' = m_kds_final g \<and>
                gpu_mem_freed w' = gpu_mem_freed w) \<or>
               (rv = 0 \<and> m_kds_final g \<noteq> 0 \<and>
                gpu_mem_freed w' = gpu_mem_freed w @ [m_kds_in g, m_kds_final g])
          else rv \<noteq> 1 \<and> gpu_mem_freed w' = gpu_mem_freed w @ [m_kds_in g])"
  using assms
  by (auto simp: gpupreagg_complete_task_def on_ok_def Let_def word_greater_zero_iff
      split: if_splits sum.splits prod.splits
      dest!: cleanup_not_terminator cleanup_terminator)



section \<open>Properties of the rounding to double precision\<close>
















section \<open>The blended estimate of the number of groups\<close>

lemma binary64_round_0: "binary64_round 0 = 0"
  by (simp add: binary64_round_def)























section \<open>The statistics of the shared state along a run\<close>











section \<open>The example runs, computed\<close>



lemma task_of_fields:
  "reduction_mode (task_of n) = GPUPREAGG_INVALID_REDUCTION \<and>
   nitems_real (task_of n) = n \<and> hash_size (task_of n) = n \<and>
   nrooms (kds_slot (task_of n)) = n \<and>
   pds_in (task_of n) = Some (chunk n) \<and> pds_final (task_of n) = None \<and>
   \<not> is_last_task (task_of n) \<and> \<not> with_nvme_strom (task_of n) \<and>
   \<not> progress_final (task_of n) \<and> \<not> cpu_fallback (task_of n) \<and>
   m_kds_in (task_of n) = 0 \<and> varlena_usage (task_of n) = 0 \<and>
   task_kerror (task_of n) = StromError_Success"
  by (simp add: task_of_def gpupreagg_create_task_def get_gpupreagg_shared_state_def on_ok_def
      Let_def chunk_def example_input_def zeroed_kds_def example_sstate_def
      empty_outer_plan_def zeroed_task_def)

lemma chunk_format: "format (kds (chunk n)) = KDS_FORMAT_ROW"
  by (simp add: chunk_def example_input_def zeroed_kds_def)

lemma unplanned_nothing_observed:
  "plan_ngroups s = 0 \<Longrightarrow> exec_ngroups s = 0 \<Longrightarrow> real_ngroups s = 0"
  by (simp add: real_ngroups_def double_add_def double_mul_def double_of_uint_def
      binary64_round_0)






lemma run_one_launched:
  "task_run example_layout 1024 one_launched example_world =
     Some (example_world
             \<lparr>gpa_sstate := example_sstate\<lparr>refcnt := 2, n_tasks_local := 1\<rparr>,
              pds := (pds example_world)(0 := example_pds\<lparr>ntasks_running := 2\<rparr>)\<rparr>)"
  by (simp add: one_launched_def task_step_def on_ok_def
      gpupreagg_create_task_def get_gpupreagg_shared_state_def
      gpupreagg_setup_strategy_def dereference_by_last_task_def no_create_final_def
      select_reduction_mode_def unplanned_nothing_observed c_int_div_def
      count_reduction_task_def gpupreagg_process_reduction_task_def
      set_up_def task_of_fields chunk_format
      chunk_def example_input_def zeroed_kds_def
      example_world_def example_sstate_def example_pds_def
      empty_outer_plan_def Let_def)

lemma world_after_one:
  "world_after one_launched =
     example_world
       \<lparr>gpa_sstate := example_sstate\<lparr>refcnt := 2, n_tasks_local := 1\<rparr>,
        pds := (pds example_world)(0 := example_pds\<lparr>ntasks_running := 2\<rparr>)\<rparr>"
  by (simp add: world_after_def run_one_launched)


















lemma create_task_sizes:
  "gpupreagg_create_task L gpas s pin is_last = Inr (g0, s0) \<Longrightarrow>
   hash_size g0 = nitems_real g0 \<and> nrooms (kds_slot g0) = nitems_real g0"
  by (auto simp: gpupreagg_create_task_def on_ok_def Let_def
      split: if_splits option.splits sum.splits prod.splits)

lemma returned_task_fields:
  "reduction_mode (returned_task e) = GPUPREAGG_LOCAL_REDUCTION \<and>
   task_kerror (returned_task e) = e \<and> \<not> progress_final (returned_task e) \<and>
   \<not> cpu_fallback (returned_task e) \<and> pds_final (returned_task e) = Some 0 \<and>
   hash_size (returned_task e) = 12000 \<and> nitems_real (returned_task e) = 12000 \<and>
   m_kds_in (returned_task e) = 20480 \<and> \<not> with_nvme_strom (returned_task e)"
  by (simp add: returned_task_def responded_def answered_def set_up_def task_of_fields)


section \<open>The final buffer is freed when, and only when, it is dereferenced and idle\<close>
lemma fresh_buffer_inv: "fresh_buffer p d s \<Longrightarrow> pds_inv p d 1 s"
  by (auto simp: fresh_buffer_def pds_inv_def buffer_freed_def terminator_fired_def
      device_memory_released_def)

lemma word_pred_unat: "(w::32 word) \<noteq> 0 \<Longrightarrow> unat (w - 1) = unat w - 1"
  by (simp add: unat_minus_one)

lemma word_succ_nonzero:
  assumes "unat (w::32 word) \<le> k" and "k < 2^32 - 1"
  shows "w + 1 \<noteq> 0 \<and> unat (w + 1) = unat w + 1"
proof -
  have "unat w + unat (1::32 word) < 2 ^ LENGTH(32)" using assms by simp
  then have u: "unat (w + 1) = unat w + 1"
    using unat_add_lem [of w 1] by simp
  then have "w + 1 \<noteq> 0" by (metis Suc_eq_plus1 nat.distinct(1) unat_0 add.commute plus_1_eq_Suc)
  with u show ?thesis by simp
qed


lemma attach_effect:
  assumes "pds_final_sstate (gpa_sstate (world_of s)) = Some p"
    and "pds_step L mt (EvAttach g) s = Inr s'"
  shows "ntasks_running (pds (world_of s') p) = ntasks_running (pds (world_of s) p) + 1 \<and>
         is_dereferenced (pds (world_of s') p) =
           (is_dereferenced (pds (world_of s) p) \<or> is_last_task g) \<and>
         (is_last_task g \<longrightarrow> pds_final_sstate (gpa_sstate (world_of s')) = None) \<and>
         requeued s' = requeued s \<and>
         pushed_tasks (world_of s') = pushed_tasks (world_of s) \<and>
         gpu_mem_freed (world_of s') = gpu_mem_freed (world_of s)"
  using assms
  by (auto simp: pds_step_def gpupreagg_setup_strategy_def dereference_by_last_task_def
      on_ok_def Let_def split: if_splits sum.splits option.splits)

lemma step_attach:
  assumes inv: "pds_inv p d k s" and k: "k < 2^32 - 1"
    and en: "pds_final_sstate (gpa_sstate (world_of s)) = Some p"
    and st: "pds_step L mt (EvAttach g) s = Inr s'"
  shows "pds_inv p d (Suc k) s'"
proof -
  note e = attach_effect [OF en st]
  from inv en have nd: "\<not> is_dereferenced (pds (world_of s) p)"
    by (auto simp: pds_inv_def)
  with inv have nf: "\<not> buffer_freed d s" by (simp add: pds_inv_def)
  from inv have c: "unat (ntasks_running (pds (world_of s) p)) \<le> k" by (simp add: pds_inv_def)
  note w = word_succ_nonzero [OF c k]
  from nf e have nf': "\<not> buffer_freed d s'"
    by (simp add: buffer_freed_def terminator_fired_def device_memory_released_def)
  show ?thesis
    using inv e w nf nf' nd
    by (auto simp: pds_inv_def buffer_freed_def terminator_fired_def device_memory_released_def)
qed


lemma step_complete_unfold:
  assumes "pds_step L mt (EvComplete g) s = Inr s'"
  obtains rv g' w' where "gpupreagg_complete_task L g (world_of s) = Inr (rv, g', w')"
    and "world_of s' = w'"
    and "requeued s' = (if rv = 1 \<and> reduction_mode g' = GPUPREAGG_ONLY_TERMINATION
                        then requeued s @ [g'] else requeued s)"
  using assms
  by (auto simp: pds_step_def on_ok_def split: sum.splits prod.splits if_splits)

lemma step_complete:
  assumes inv: "pds_inv p d k s"
    and en: "pds_final g = Some p" "m_kds_final g = d" "m_kds_in g \<noteq> d"
            "reduction_mode g \<noteq> GPUPREAGG_ONLY_TERMINATION"
    and st: "pds_step L mt (EvComplete g) s = Inr s'"
  shows "pds_inv p d (Suc k) s'"
proof -
  from st obtain rv g' w' where
    ct: "gpupreagg_complete_task L g (world_of s) = Inr (rv, g', w')"
    and w': "world_of s' = w'"
    and rq: "requeued s' = (if rv = 1 \<and> reduction_mode g' = GPUPREAGG_ONLY_TERMINATION
                            then requeued s @ [g'] else requeued s)"
    by (rule step_complete_unfold)
  show ?thesis
  proof (cases "task_kerror g = StromError_DataStoreNoSpace")
    case True
    show ?thesis
    proof (cases "progress_final g")
      case False
      note e = complete_scenario1 [OF ct en(4) True False]
      show ?thesis
        using inv e w' rq en
        by (auto simp: pds_inv_def buffer_freed_def terminator_fired_def
            device_memory_released_def)
    next
      case pf: True
      note e = complete_scenario2 [OF ct en(4) True pf en(1)]
      from e have nz: "ntasks_running (pds (world_of s) p) \<noteq> 0" by simp
      with inv have nf: "\<not> buffer_freed d s" by (simp add: pds_inv_def)
      note u = word_pred_unat [OF nz]
      show ?thesis
        using inv e w' rq en nf u
        by (auto simp: pds_inv_def buffer_freed_def terminator_fired_def
            device_memory_released_def split: if_splits)
    qed
  next
    case False
    note e = complete_other [OF ct en(4) False en(1)]
    from e have nz: "ntasks_running (pds (world_of s) p) \<noteq> 0" by simp
    with inv have nf: "\<not> buffer_freed d s" by (simp add: pds_inv_def)
    note u = word_pred_unat [OF nz]
    show ?thesis
      using inv e w' rq en nf u
      by (auto simp: pds_inv_def buffer_freed_def terminator_fired_def
          device_memory_released_def split: if_splits)
  qed
qed

lemma step_terminate_requeued:
  assumes inv: "pds_inv p d k s"
    and en: "requeued s \<noteq> []"
    and st: "pds_step L mt EvTerminateRequeued s = Inr s'"
  shows "pds_inv p d (Suc k) s'"
proof -
  from inv en obtain t where t: "requeued s = [t]" "pushed_tasks (world_of s) = []"
    "pds_final t = Some p" "m_kds_final t = d" "reduction_mode t = GPUPREAGG_ONLY_TERMINATION"
    by (cases "requeued s") (auto simp: pds_inv_def)
  from st t obtain rv g' w' where
    ct: "gpupreagg_complete_task L t (world_of s) = Inr (rv, g', w')"
    and w': "world_of s' = w'" and rq: "requeued s' = []"
    by (auto simp: pds_step_def on_ok_def split: sum.splits prod.splits)
  note e = complete_terminator [OF ct t(5) t(3)]
  show ?thesis
    using inv e w' rq t
    by (auto simp: pds_inv_def buffer_freed_def terminator_fired_def device_memory_released_def)
qed

lemma step_terminate_pushed:
  assumes inv: "pds_inv p d k s"
    and en: "pushed_tasks (world_of s) \<noteq> []"
    and st: "pds_step L mt EvTerminatePushed s = Inr s'"
  shows "pds_inv p d (Suc k) s'"
proof -
  from inv en obtain t where t: "pushed_tasks (world_of s) = [t]" "requeued s = []"
    "pds_final t = Some p" "m_kds_final t = d" "reduction_mode t = GPUPREAGG_ONLY_TERMINATION"
    by (cases "pushed_tasks (world_of s)") (auto simp: pds_inv_def)
  from st t obtain rv g' w' where
    ct: "gpupreagg_complete_task L t ((world_of s)\<lparr>pushed_tasks := []\<rparr>) = Inr (rv, g', w')"
    and w': "world_of s' = w'" and rq: "requeued s' = requeued s"
    by (auto simp: pds_step_def on_ok_def split: sum.splits prod.splits)
  note e = complete_terminator [OF ct t(5) t(3)]
  show ?thesis
    using inv e w' rq t
    by (auto simp: pds_inv_def buffer_freed_def terminator_fired_def device_memory_released_def)
qed

lemma pds_step_inv:
  assumes "pds_inv p d k s" and "k < 2^32 - 1" and "pds_enabled p d ev s"
    and "pds_step L mt ev s = Inr s'"
  shows "pds_inv p d (Suc k) s'"
proof (cases ev)
  case (EvAttach g)
  with assms show ?thesis by (auto simp: pds_enabled_def intro: step_attach)
next
  case (EvComplete g)
  with assms show ?thesis by (auto simp: pds_enabled_def intro: step_complete)
next
  case EvTerminateRequeued
  with assms show ?thesis by (auto simp: pds_enabled_def intro: step_terminate_requeued)
next
  case EvTerminatePushed
  with assms show ?thesis by (auto simp: pds_enabled_def intro: step_terminate_pushed)
qed

lemma pds_run_inv:
  "pds_inv p d k s \<Longrightarrow> k + length evs < 2^32 \<Longrightarrow> pds_run L mt p d evs s = Some s' \<Longrightarrow>
   pds_inv p d (k + length evs) s'"
proof (induction evs arbitrary: k s)
  case Nil
  then show ?case by simp
next
  case (Cons ev evs)
  from Cons.prems(3) obtain s1 where en: "pds_enabled p d ev s"
    and st: "pds_step L mt ev s = Inr s1" and run: "pds_run L mt p d evs s1 = Some s'"
    by (auto split: if_splits sum.splits)
  from Cons.prems(2) have k: "k < 2^32 - 1" by simp
  have "pds_inv p d (Suc k) s1" by (rule pds_step_inv [OF Cons.prems(1) k en st])
  moreover from Cons.prems(2) have "Suc k + length evs < 2^32" by simp
  ultimately have "pds_inv p d (Suc k + length evs) s'" using run by (rule Cons.IH)
  then show ?case by simp
qed


text \<open>
  C1. Take a final buffer as its first task leaves it, and any run of attach and
  completion events on it (fewer than 2^32 - 1 events, so that the 32-bit counter of
  running tasks cannot wrap) in which no assertion of the code fails. In the state
  reached, the buffer is freed (its terminator is queued, or its device memory has been
  handed to gpuMemFree) if and only if its count of running tasks is zero and its
  dereferenced flag is set; in particular its device memory is never released before the
  buffer is marked dereferenced.
\<close>

theorem final_buffer_freed_iff:
  assumes "fresh_buffer p d s0" and "length evs < 2^32 - 1"
    and "pds_run L mt p d evs s0 = Some s"
  shows "(buffer_freed d s \<longleftrightarrow>
            ntasks_running (pds (world_of s) p) = 0 \<and> is_dereferenced (pds (world_of s) p)) \<and>
         (device_memory_released d s \<longrightarrow> is_dereferenced (pds (world_of s) p))"
proof -
  have "pds_inv p d 1 s0" using assms(1) by (rule fresh_buffer_inv)
  moreover have "1 + length evs < 2^32" using assms(2) by simp
  ultimately have "pds_inv p d (1 + length evs) s" using assms(3) by (rule pds_run_inv)
  then show ?thesis by (auto simp: pds_inv_def buffer_freed_def)
qed


theorem final_buffer_freed_iff_witness:
  "fresh_buffer 0 4096 example_sys \<and>
   length example_events < 2^32 - 1 \<and>
   (\<exists>s. pds_run example_layout 1024 0 4096 example_events example_sys = Some s \<and>
        device_memory_released 4096 s \<and> buffer_freed 4096 s \<and>
        ntasks_running (pds (world_of s) 0) = 0 \<and> is_dereferenced (pds (world_of s) 0))"
proof -
  have f: "fresh_buffer 0 4096 example_sys"
    by (simp add: fresh_buffer_def example_sys_def example_world_def example_pds_def
        example_sstate_def)
  have l: "length example_events < 2^32 - 1" by (simp add: example_events_def)
  obtain s where r: "pds_run example_layout 1024 0 4096 example_events example_sys = Some s"
    and m: "device_memory_released 4096 s"
    by (simp add: example_events_def example_sys_def example_world_def example_pds_def
        example_sstate_def last_task_def running_task_def example_input_def zeroed_task_def
        zeroed_kds_def pds_enabled_def pds_step_def gpupreagg_setup_strategy_def
        dereference_by_last_task_def gpupreagg_complete_task_def
        gpupreagg_cleanup_cuda_resources_def on_ok_def device_memory_released_def Let_def)
  from final_buffer_freed_iff [OF f l r] m show ?thesis
    using f l r by (auto simp: buffer_freed_def)
qed

section \<open>Overflow before the final buffer is touched\<close>

text \<open>
  C2. When a reduction task comes back with the error "no data space" and had not begun
  to write into the final buffer, the handler asks for the task to be run again (return
  value 1, is_retry set), sets the room count of the task's working slot buffer to
  exactly nitems_real and its length to the size of that many rows, and sets the task's
  hash size to the larger of its present value and nitems_real, which is exactly
  nitems_real whenever the hash size was not above it. That is so for every task the
  host builds: gpupreagg_create_task makes the hash size, the room count and nitems_real
  equal, nothing else writes the hash size, and the handler leaves them equal again. The
  shared state, every final buffer and the queue of pushed tasks are left unchanged; the
  task keeps its reduction mode and its final buffer.
\<close>

theorem nospace_before_final_resizes_own_buffers:
  assumes "reduction_mode g \<noteq> GPUPREAGG_ONLY_TERMINATION"
    and "task_kerror g = StromError_DataStoreNoSpace"
    and "\<not> progress_final g"
  shows "(\<exists>g' w'. gpupreagg_complete_task L g w = Inr (1, g', w') \<and>
           gpuserv_disposition 1 = RunAgain \<and> is_retry g' \<and>
           hash_size g' = max (hash_size g) (nitems_real g) \<and>
           (hash_size g \<le> nitems_real g \<longrightarrow> hash_size g' = nitems_real g) \<and>
           nrooms (kds_slot g') = nitems_real g \<and>
           nitems_real g' = nitems_real g \<and>
           kds_length (kds_slot g') =
             STROMALIGN L (offsetof_colmeta L (unat (ncols (kds_slot g)))) +
             STROMALIGN L (LONGALIGN L (sizeof_Datum L + sizeof_char L) *
                           unat (ncols (kds_slot g))) * unat (nitems_real g) \<and>
           kresults_2_offset g' =
             STROMALIGN L (kresults_1_offset g + offsetof_results L (unat (nitems_real g))) \<and>
           reduction_mode g' = reduction_mode g \<and> pds_final g' = pds_final g \<and>
           gpa_sstate w' = gpa_sstate w \<and> pds w' = pds w \<and>
           pushed_tasks w' = pushed_tasks w) \<and>
         (gpupreagg_create_task L gpas s pin is_last = Inr (g0, s0) \<longrightarrow>
            hash_size g0 = nitems_real g0 \<and> nrooms (kds_slot g0) = nitems_real g0)"
proof
  show "\<exists>g' w'. gpupreagg_complete_task L g w = Inr (1, g', w') \<and>
           gpuserv_disposition 1 = RunAgain \<and> is_retry g' \<and>
           hash_size g' = max (hash_size g) (nitems_real g) \<and>
           (hash_size g \<le> nitems_real g \<longrightarrow> hash_size g' = nitems_real g) \<and>
           nrooms (kds_slot g') = nitems_real g \<and>
           nitems_real g' = nitems_real g \<and>
           kds_length (kds_slot g') =
             STROMALIGN L (offsetof_colmeta L (unat (ncols (kds_slot g)))) +
             STROMALIGN L (LONGALIGN L (sizeof_Datum L + sizeof_char L) *
                           unat (ncols (kds_slot g))) * unat (nitems_real g) \<and>
           kresults_2_offset g' =
             STROMALIGN L (kresults_1_offset g + offsetof_results L (unat (nitems_real g))) \<and>
           reduction_mode g' = reduction_mode g \<and> pds_final g' = pds_final g \<and>
           gpa_sstate w' = gpa_sstate w \<and> pds w' = pds w \<and>
           pushed_tasks w' = pushed_tasks w"
    using assms
    by (simp add: gpupreagg_complete_task_def gpupreagg_cleanup_cuda_resources_def on_ok_def
        Let_def gpuserv_disposition_def max_def)
  show "gpupreagg_create_task L gpas s pin is_last = Inr (g0, s0) \<longrightarrow>
            hash_size g0 = nitems_real g0 \<and> nrooms (kds_slot g0) = nitems_real g0"
    using create_task_sizes by blast
qed

theorem nospace_before_final_resizes_own_buffers_witness:
  "reduction_mode (returned_task StromError_DataStoreNoSpace) \<noteq> GPUPREAGG_ONLY_TERMINATION \<and>
   task_kerror (returned_task StromError_DataStoreNoSpace) = StromError_DataStoreNoSpace \<and>
   \<not> progress_final (returned_task StromError_DataStoreNoSpace) \<and>
   hash_size (returned_task StromError_DataStoreNoSpace) \<le>
     nitems_real (returned_task StromError_DataStoreNoSpace) \<and>
   (\<exists>g' w'. gpupreagg_complete_task example_layout (returned_task StromError_DataStoreNoSpace)
               (world_after one_launched) = Inr (1, g', w') \<and>
            is_retry g' \<and> hash_size g' = 12000 \<and> nrooms (kds_slot g') = 12000 \<and>
            gpa_sstate w' = gpa_sstate (world_after one_launched) \<and>
            pds w' = pds (world_after one_launched)) \<and>
   (\<exists>g0 s0. gpupreagg_create_task example_layout empty_outer_plan example_sstate
               (Some (chunk 12000)) False = Inr (g0, s0) \<and>
             hash_size g0 = 12000 \<and> nrooms (kds_slot g0) = 12000 \<and> nitems_real g0 = 12000)"
proof -
  have h: "reduction_mode (returned_task StromError_DataStoreNoSpace) \<noteq> GPUPREAGG_ONLY_TERMINATION"
    "task_kerror (returned_task StromError_DataStoreNoSpace) = StromError_DataStoreNoSpace"
    "\<not> progress_final (returned_task StromError_DataStoreNoSpace)"
    by (simp_all add: returned_task_fields)
  have v: "hash_size (returned_task StromError_DataStoreNoSpace) = 12000"
    "nitems_real (returned_task StromError_DataStoreNoSpace) = 12000"
    by (simp_all add: returned_task_fields)
  obtain g0 s0 where c: "gpupreagg_create_task example_layout empty_outer_plan example_sstate
               (Some (chunk 12000)) False = Inr (g0, s0)"
    and n: "nitems_real g0 = 12000"
    by (simp add: gpupreagg_create_task_def get_gpupreagg_shared_state_def on_ok_def
        chunk_def example_input_def example_sstate_def zeroed_kds_def Let_def)
  note T = nospace_before_final_resizes_own_buffers [OF h, where L = example_layout and
      w = "world_after one_launched" and gpas = empty_outer_plan and s = example_sstate and
      pin = "Some (chunk 12000)" and is_last = False and ?g0.0 = g0 and ?s0.0 = s0]
  from T c have A: "hash_size g0 = nitems_real g0 \<and> nrooms (kds_slot g0) = nitems_real g0"
    by blast
  from T obtain g' w' where B: "gpupreagg_complete_task example_layout
      (returned_task StromError_DataStoreNoSpace) (world_after one_launched) = Inr (1, g', w')"
    "is_retry g'"
    "hash_size (returned_task StromError_DataStoreNoSpace) \<le>
       nitems_real (returned_task StromError_DataStoreNoSpace) \<longrightarrow>
     hash_size g' = nitems_real (returned_task StromError_DataStoreNoSpace)"
    "nrooms (kds_slot g') = nitems_real (returned_task StromError_DataStoreNoSpace)"
    "gpa_sstate w' = gpa_sstate (world_after one_launched)"
    "pds w' = pds (world_after one_launched)"
    by blast
  from B(3) have "hash_size g' = 12000" unfolding v by simp
  with h v A B c n show ?thesis by auto
qed


section \<open>CPU fallback\<close>

text \<open>
  C3. Let the completion handler run for a reduction task (not a terminator) whose
  cpu_fallback flag is not yet set. It clears the error code and sets cpu_fallback if
  and only if the error code is CpuReCheck and progress_final is false, and
  gpupreagg_next_tuple would read such a task through the row-at-a-time fallback over
  its input. A CpuReCheck error with progress_final set is not converted: the task keeps
  the error code and is handed back to the backend (return value 0). But the converted
  task is not handed back: with its error code cleared it is treated as a task that
  succeeded on the device, and is released (return value -1) or, as the last task on a
  dereferenced buffer, turned into the terminator of the buffer (return value 1). In neither case is the
  return value the one that hands the task to gpupreagg_next_tuple.
\<close>

theorem cpu_fallback_task_is_not_returned:
  assumes "gpupreagg_complete_task L g w = Inr (retval, g', w')"
    and "reduction_mode g \<noteq> GPUPREAGG_ONLY_TERMINATION"
    and "\<not> cpu_fallback g"
  shows "((cpu_fallback g' \<and> task_kerror g' = StromError_Success) \<longleftrightarrow>
          (task_kerror g = StromError_CpuReCheck \<and> \<not> progress_final g)) \<and>
         (cpu_fallback g' \<longrightarrow> gpupreagg_next_tuple_source g' = CpuFallbackOverInput) \<and>
         (task_kerror g = StromError_CpuReCheck \<and> progress_final g \<longrightarrow>
            task_kerror g' = StromError_CpuReCheck \<and> \<not> cpu_fallback g' \<and>
            gpuserv_disposition retval = ReturnToBackend) \<and>
         (task_kerror g = StromError_CpuReCheck \<and> \<not> progress_final g \<longrightarrow>
            gpuserv_disposition retval \<noteq> ReturnToBackend \<and>
            (gpuserv_disposition retval = ReleaseTask \<or>
             gpuserv_disposition retval = RunAgain \<and>
             reduction_mode g' = GPUPREAGG_ONLY_TERMINATION))"
  using assms
  by (auto simp: gpupreagg_complete_task_def gpupreagg_cleanup_cuda_resources_def on_ok_def
      Let_def gpupreagg_next_tuple_source_def gpupreagg_push_terminator_task_def
      gpuserv_disposition_def
      split: if_splits option.splits prod.splits)

theorem cpu_fallback_task_is_not_returned_witness:
  "(\<exists>retval g' w'. gpupreagg_complete_task example_layout (returned_task StromError_CpuReCheck)
                      (world_after one_launched) = Inr (retval, g', w') \<and>
      reduction_mode (returned_task StromError_CpuReCheck) \<noteq> GPUPREAGG_ONLY_TERMINATION \<and>
      \<not> cpu_fallback (returned_task StromError_CpuReCheck) \<and>
      task_kerror (returned_task StromError_CpuReCheck) = StromError_CpuReCheck \<and>
      \<not> progress_final (returned_task StromError_CpuReCheck) \<and>
      cpu_fallback g' \<and> task_kerror g' = StromError_Success \<and>
      gpupreagg_next_tuple_source g' = CpuFallbackOverInput \<and>
      retval = - 1 \<and> gpuserv_disposition retval = ReleaseTask) \<and>
   (\<exists>retval g' w'. gpupreagg_complete_task example_layout
                      ((returned_task StromError_CpuReCheck)\<lparr>progress_final := True\<rparr>)
                      (world_after one_launched) = Inr (retval, g', w') \<and>
      \<not> cpu_fallback g' \<and> task_kerror g' = StromError_CpuReCheck \<and>
      retval = 0 \<and> gpuserv_disposition retval = ReturnToBackend)"
proof -
  have h: "reduction_mode (returned_task StromError_CpuReCheck) \<noteq> GPUPREAGG_ONLY_TERMINATION"
    "\<not> cpu_fallback (returned_task StromError_CpuReCheck)"
    "task_kerror (returned_task StromError_CpuReCheck) = StromError_CpuReCheck"
    "\<not> progress_final (returned_task StromError_CpuReCheck)"
    by (simp_all add: returned_task_fields)
  have h': "reduction_mode ((returned_task StromError_CpuReCheck)\<lparr>progress_final := True\<rparr>)
              \<noteq> GPUPREAGG_ONLY_TERMINATION"
    "\<not> cpu_fallback ((returned_task StromError_CpuReCheck)\<lparr>progress_final := True\<rparr>)"
    "task_kerror ((returned_task StromError_CpuReCheck)\<lparr>progress_final := True\<rparr>)
       = StromError_CpuReCheck"
    "progress_final ((returned_task StromError_CpuReCheck)\<lparr>progress_final := True\<rparr>)"
    by (simp_all add: returned_task_fields)
  obtain g1 w1 where c1: "gpupreagg_complete_task example_layout
      (returned_task StromError_CpuReCheck) (world_after one_launched) = Inr (- 1, g1, w1)"
    unfolding world_after_one
    by (simp add: gpupreagg_complete_task_def gpupreagg_cleanup_cuda_resources_def on_ok_def
        Let_def returned_task_fields example_world_def example_pds_def)
  obtain g2 w2 where c2: "gpupreagg_complete_task example_layout
      ((returned_task StromError_CpuReCheck)\<lparr>progress_final := True\<rparr>)
      (world_after one_launched) = Inr (0, g2, w2)"
    unfolding world_after_one
    by (simp add: gpupreagg_complete_task_def gpupreagg_cleanup_cuda_resources_def on_ok_def
        Let_def returned_task_fields example_world_def example_pds_def)
  note T1 = cpu_fallback_task_is_not_returned [OF c1 h(1) h(2)]
  note T2 = cpu_fallback_task_is_not_returned [OF c2 h'(1) h'(2)]
  from T1 h have A: "cpu_fallback g1 \<and> task_kerror g1 = StromError_Success \<and>
      gpupreagg_next_tuple_source g1 = CpuFallbackOverInput" by blast
  have D1: "gpuserv_disposition (- 1) = ReleaseTask" by (simp add: gpuserv_disposition_def)
  from T2 h' have B: "\<not> cpu_fallback g2 \<and> task_kerror g2 = StromError_CpuReCheck \<and>
      gpuserv_disposition 0 = ReturnToBackend" by blast
  from c1 c2 h A B D1 show ?thesis by blast
qed

section \<open>Choice of the reduction mode\<close>




section \<open>Succession of reduction modes\<close>




section \<open>Sharing of device columns\<close>


lemma tlist_dev_member_iff:
  "length dev = length act \<Longrightarrow>
   tlist_dev_member dev act a e \<longleftrightarrow> (a, ExprNode e) \<in> set (zip act (map expr dev))"
  by (induction dev act a e rule: tlist_dev_member.induct) auto

lemma make_altfunc_expr_action:
  "make_altfunc_expr aggref a = Inr e \<Longrightarrow> ALTFUNC_EXPR_NROWS \<le> a"
  by (auto simp: make_altfunc_expr_def split: if_splits)

lemma zip_snoc: "length xs = length ys \<Longrightarrow> zip (xs @ [x]) (ys @ [y]) = zip xs ys @ [(x, y)]"
  by simp

lemma build_altfn_arg_cols:
  assumes "build_altfn_arg sc aggref arg (dev, act, args0) = Inr (dev', act', args')"
    and "length dev = length act"
  shows "length dev' = length act' \<and>
         set (zip act' (map expr dev')) =
           set (zip act (map expr dev)) \<union> set (wanted_altfn_column sc aggref arg) \<and>
         (distinct (filter aggfn_arg_column (zip act (map expr dev))) \<longrightarrow>
          distinct (filter aggfn_arg_column (zip act' (map expr dev')))) \<and>
         filter (\<lambda>c. \<not> aggfn_arg_column c) (zip act' (map expr dev')) =
           filter (\<lambda>c. \<not> aggfn_arg_column c) (zip act (map expr dev))"
proof (cases arg)
  case (Pair action argtype)
  show ?thesis
  proof (cases "action = ALTFUNC_CONST_NULL")
    case True
    with assms Pair show ?thesis
      by (auto simp: build_altfn_arg_def wanted_altfn_column_def)
  next
    case False
    from assms(1) Pair False obtain e0 e where
      e0: "make_altfunc_expr aggref action = Inr e0"
      and e: "make_expr_typecast sc e0 argtype = Inr e"
      by (auto simp: build_altfn_arg_def on_ok_def split: sum.splits)
    have w: "wanted_altfn_column sc aggref arg = [(action, ExprNode e)]"
      using Pair False e0 e by (simp add: wanted_altfn_column_def on_ok_def)
    have ag: "aggfn_arg_column (action, ExprNode e)"
      using make_altfunc_expr_action [OF e0] by (simp add: aggfn_arg_column_def)
    show ?thesis
    proof (cases "tlist_dev_member dev act action e")
      case True
      with assms Pair False e0 e have "dev' = dev" "act' = act"
        by (auto simp: build_altfn_arg_def on_ok_def)
      moreover from True assms(2) have "(action, ExprNode e) \<in> set (zip act (map expr dev))"
        by (simp add: tlist_dev_member_iff)
      ultimately show ?thesis using assms(2) w by auto
    next
      case nm: False
      with assms Pair False e0 e have
        d: "dev' = dev @ [makeTargetEntry (ExprNode e) (int (length dev) + 1) None False]"
        and a: "act' = act @ [action]"
        by (auto simp: build_altfn_arg_def on_ok_def)
      from nm assms(2) have ni: "(action, ExprNode e) \<notin> set (zip act (map expr dev))"
        by (simp add: tlist_dev_member_iff)
      have z: "zip act' (map expr dev') = zip act (map expr dev) @ [(action, ExprNode e)]"
        unfolding d a using assms(2) by (simp add: makeTargetEntry_def)
      show ?thesis
        unfolding z w using assms(2) ni ag by (auto simp: d a)
    qed
  qed
qed


lemma build_altfn_args_cols:
  "build_altfn_args sc aggref argl (dev, act, args0) = Inr (dev', act', args') \<Longrightarrow>
   length dev = length act \<Longrightarrow>
   length dev' = length act' \<and>
   set (zip act' (map expr dev')) =
     set (zip act (map expr dev)) \<union> set (concat (map (wanted_altfn_column sc aggref) argl)) \<and>
   (distinct (filter aggfn_arg_column (zip act (map expr dev))) \<longrightarrow>
    distinct (filter aggfn_arg_column (zip act' (map expr dev')))) \<and>
   filter (\<lambda>c. \<not> aggfn_arg_column c) (zip act' (map expr dev')) =
     filter (\<lambda>c. \<not> aggfn_arg_column c) (zip act (map expr dev))"
proof (induction argl arbitrary: dev act args0)
  case Nil
  then show ?case by simp
next
  case (Cons arg rest)
  from Cons.prems(1) obtain dev1 act1 args1 where
    s1: "build_altfn_arg sc aggref arg (dev, act, args0) = Inr (dev1, act1, args1)"
    and s2: "build_altfn_args sc aggref rest (dev1, act1, args1) = Inr (dev', act', args')"
    by (auto simp: on_ok_def split: sum.splits)
  note a = build_altfn_arg_cols [OF s1 Cons.prems(2)]
  then have l1: "length dev1 = length act1" by simp
  note b = Cons.IH [OF s2 l1]
  from a b show ?case by auto
qed

lemma build_tlist_entry_cols:
  assumes "build_tlist_entry sc target index tle (host, dev, act) = Inr (host', dev', act')"
    and "length dev = length act"
  shows "length dev' = length act' \<and>
         set (zip act' (map expr dev')) =
           set (zip act (map expr dev)) \<union> set (wanted_device_columns sc target index [tle]) \<and>
         (distinct (filter aggfn_arg_column (zip act (map expr dev))) \<longrightarrow>
          distinct (filter aggfn_arg_column (zip act' (map expr dev')))) \<and>
         map snd (filter (\<lambda>c. \<not> aggfn_arg_column c) (zip act' (map expr dev'))) =
           map snd (filter (\<lambda>c. \<not> aggfn_arg_column c) (zip act (map expr dev))) @
           plain_entries [tle]"
proof (cases "expr tle")
  case (AggrefNode aggref)
  from assms(1) AggrefNode obtain sg aggfn_cat args' where
    lk: "aggfunc_lookup_by_oid (PROCOID sc) (aggfnoid aggref) = Inr (Some aggfn_cat)"
    and b: "build_altfn_args sc aggref
              (zip (take (altfn_nargs aggfn_cat) (altfn_argexprs aggfn_cat))
                   (take (altfn_nargs aggfn_cat) (altfn_argtypes aggfn_cat)))
              (dev, act, []) = Inr (dev', act', args')"
    by (auto simp: build_tlist_entry_def on_ok_def
        split: sum.splits option.splits if_splits prod.splits)
  note c = build_altfn_args_cols [OF b assms(2)]
  have p: "plain_entries [tle] = []" using AggrefNode by (simp add: plain_entries_def)
  from c show ?thesis using AggrefNode lk p by simp
next
  case (ExprNode e)
  from assms(1) ExprNode obtain sg where
    sg: "sortgroupref_at target index = Inr sg"
    and d: "dev' = dev @ [tle]"
    and a: "act' = act @ [if (case sg of None \<Rightarrow> True | Some r \<Rightarrow> r > 0)
                          then ALTFUNC_GROUPING_KEY else ALTFUNC_CONST_VALUE]"
    by (auto simp: build_tlist_entry_def on_ok_def split: sum.splits)
  have p: "plain_entries [tle] = [ExprNode e]" using ExprNode by (simp add: plain_entries_def)
  show ?thesis
    unfolding d a p using assms(2) ExprNode sg
    by (cases sg) (auto simp: aggfn_arg_column_def)
qed

lemma build_tlist_loop_cols:
  "build_tlist_loop sc target index tlist (host, dev, act) = Inr (host', dev', act') \<Longrightarrow>
   length dev = length act \<Longrightarrow>
   length dev' = length act' \<and>
   set (zip act' (map expr dev')) =
     set (zip act (map expr dev)) \<union> set (wanted_device_columns sc target index tlist) \<and>
   (distinct (filter aggfn_arg_column (zip act (map expr dev))) \<longrightarrow>
    distinct (filter aggfn_arg_column (zip act' (map expr dev')))) \<and>
   map snd (filter (\<lambda>c. \<not> aggfn_arg_column c) (zip act' (map expr dev'))) =
     map snd (filter (\<lambda>c. \<not> aggfn_arg_column c) (zip act (map expr dev))) @
     plain_entries tlist"
proof (induction tlist arbitrary: index host dev act)
  case Nil
  then show ?case by (simp add: plain_entries_def)
next
  case (Cons tle rest)
  from Cons.prems(1) obtain host1 dev1 act1 where
    s1: "build_tlist_entry sc target index tle (host, dev, act) = Inr (host1, dev1, act1)"
    and s2: "build_tlist_loop sc target (index + 1) rest (host1, dev1, act1) =
               Inr (host', dev', act')"
    by (auto simp: on_ok_def split: sum.splits)
  note a = build_tlist_entry_cols [OF s1 Cons.prems(2)]
  then have l1: "length dev1 = length act1" by simp
  note b = Cons.IH [OF s2 l1]
  have w: "wanted_device_columns sc target index (tle # rest) =
           wanted_device_columns sc target index [tle] @
           wanted_device_columns sc target (index + 1) rest"
    by simp
  have p: "plain_entries (tle # rest) = plain_entries [tle] @ plain_entries rest"
    by (simp add: plain_entries_def)
  from a b show ?case unfolding w p by auto
qed

lemma distinct_filter_split:
  "distinct (filter P xs) \<Longrightarrow> distinct (filter (\<lambda>x. \<not> P x) xs) \<Longrightarrow> distinct xs"
  by (induction xs) (auto split: if_splits)


text \<open>The example of SUM(x) and AVG(x), computed.\<close>

lemma sum_and_avg_built:
  "build_custom_scan_tlist example_syscache \<lparr>sortgrouprefs = None\<rparr> sum_and_avg =
   Inr ([\<lparr>expr = ExprNode (FuncExpr 481 INT8OID [Var INT4OID 1]), resno = 1,
          resname = None, resjunk = False\<rparr>,
         \<lparr>expr = ExprNode (FuncExpr 16501 1016
             [CaseExpr INT8OID (NullTest (Var INT4OID 1)) (Const INT8OID 1 False)
                (Const INT8OID 0 False),
              FuncExpr 481 INT8OID [Var INT4OID 1]]),
          resno = 2, resname = None, resjunk = False\<rparr>],
        [\<lparr>expr = ExprNode (FuncExpr 481 INT8OID [Var INT4OID 1]), resno = 1,
          resname = None, resjunk = False\<rparr>,
         \<lparr>expr = ExprNode (CaseExpr INT8OID (NullTest (Var INT4OID 1)) (Const INT8OID 1 False)
                (Const INT8OID 0 False)),
          resno = 2, resname = None, resjunk = False\<rparr>],
        [ALTFUNC_EXPR_PSUM, ALTFUNC_EXPR_NROWS])"
  by code_simp

lemma sum_and_avg_wanted:
  "wanted_device_columns example_syscache \<lparr>sortgrouprefs = None\<rparr> 0 sum_and_avg =
   [(ALTFUNC_EXPR_PSUM, ExprNode (FuncExpr 481 INT8OID [Var INT4OID 1])),
    (ALTFUNC_EXPR_NROWS,
       ExprNode (CaseExpr INT8OID (NullTest (Var INT4OID 1)) (Const INT8OID 1 False)
                   (Const INT8OID 0 False))),
    (ALTFUNC_EXPR_PSUM, ExprNode (FuncExpr 481 INT8OID [Var INT4OID 1]))]"
  by code_simp

text \<open>
  C6 (amended). When the builder succeeds, the device target list holds exactly the
  columns the target list asks for; among the columns that are arguments of aggregates
  no pair of action tag and expression occurs twice (a new column is appended only
  after the scan of the existing columns has found none with the same action tag and an
  equal expression, so two aggregates with the same argument and role share one
  column); the other columns are the target entries that are no aggregates, one column
  each, in their order, appended without that scan. So the whole device target list is
  free of duplicates whenever the entries that are no aggregates are pairwise different.
\<close>

theorem device_columns_shared_among_aggregates:
  assumes "build_custom_scan_tlist sc target tlist = Inr st"
  shows "set (device_columns st) = set (wanted_device_columns sc target 0 tlist) \<and>
         distinct (filter aggfn_arg_column (device_columns st)) \<and>
         map snd (filter (\<lambda>c. \<not> aggfn_arg_column c) (device_columns st)) = plain_entries tlist \<and>
         (distinct (plain_entries tlist) \<longrightarrow> distinct (device_columns st))"
proof -
  obtain host dev act where st: "st = (host, dev, act)" by (cases st) auto
  from assms st have "build_tlist_loop sc target 0 tlist ([], [], []) = Inr (host, dev, act)"
    by (simp add: build_custom_scan_tlist_def)
  from build_tlist_loop_cols [OF this] have
    a: "set (zip act (map expr dev)) = set (wanted_device_columns sc target 0 tlist)"
    and b: "distinct (filter aggfn_arg_column (zip act (map expr dev)))"
    and c: "map snd (filter (\<lambda>c. \<not> aggfn_arg_column c) (zip act (map expr dev))) =
            plain_entries tlist"
    by simp_all
  have d: "distinct (zip act (map expr dev))" if "distinct (plain_entries tlist)"
  proof -
    from that c have "distinct (map snd (filter (\<lambda>c. \<not> aggfn_arg_column c)
                                           (zip act (map expr dev))))"
      by simp
    then have "distinct (filter (\<lambda>c. \<not> aggfn_arg_column c) (zip act (map expr dev)))"
      by (simp add: distinct_map)
    with b show ?thesis by (rule distinct_filter_split)
  qed
  from a b c d show ?thesis by (simp add: device_columns_def st)
qed


theorem device_columns_shared_among_aggregates_witness:
  "(\<exists>st. build_custom_scan_tlist example_syscache \<lparr>sortgrouprefs = None\<rparr> sum_and_avg = Inr st \<and>
         device_columns st =
           [(ALTFUNC_EXPR_PSUM, ExprNode (FuncExpr 481 INT8OID [Var INT4OID 1])),
            (ALTFUNC_EXPR_NROWS,
             ExprNode (CaseExpr INT8OID (NullTest (Var INT4OID 1))
                         (Const INT8OID 1 False) (Const INT8OID 0 False)))] \<and>
         distinct (device_columns st)) \<and>
   length (wanted_device_columns example_syscache \<lparr>sortgrouprefs = None\<rparr> 0 sum_and_avg) = 3 \<and>
   plain_entries sum_and_avg = []"
proof -
  have p: "plain_entries sum_and_avg = []"
    by (simp add: plain_entries_def sum_and_avg_def makeTargetEntry_def)
  from device_columns_shared_among_aggregates [OF sum_and_avg_built] p
  have "distinct (device_columns
          ([\<lparr>expr = ExprNode (FuncExpr 481 INT8OID [Var INT4OID 1]), resno = 1,
             resname = None, resjunk = False\<rparr>,
            \<lparr>expr = ExprNode (FuncExpr 16501 1016
                [CaseExpr INT8OID (NullTest (Var INT4OID 1)) (Const INT8OID 1 False)
                   (Const INT8OID 0 False),
                 FuncExpr 481 INT8OID [Var INT4OID 1]]),
             resno = 2, resname = None, resjunk = False\<rparr>],
           [\<lparr>expr = ExprNode (FuncExpr 481 INT8OID [Var INT4OID 1]), resno = 1,
             resname = None, resjunk = False\<rparr>,
            \<lparr>expr = ExprNode (CaseExpr INT8OID (NullTest (Var INT4OID 1))
                   (Const INT8OID 1 False) (Const INT8OID 0 False)),
             resno = 2, resname = None, resjunk = False\<rparr>],
           [ALTFUNC_EXPR_PSUM, ALTFUNC_EXPR_NROWS]))"
    by simp
  then show ?thesis
    using sum_and_avg_built p
    by (simp add: sum_and_avg_wanted device_columns_def)
qed

text \<open>
  The claim as stated fails on a target list that names the same grouping key twice:
  both entries become device columns, with the same action tag and the same expression.
\<close>

theorem device_columns_duplicate_counterexample:
  "built_device_columns
     (build_custom_scan_tlist empty_syscache \<lparr>sortgrouprefs = Some [1, 2]\<rparr> group_key_twice) =
   Some [(ALTFUNC_GROUPING_KEY, ExprNode (Var INT4OID 1)),
         (ALTFUNC_GROUPING_KEY, ExprNode (Var INT4OID 1))] \<and>
   \<not> distinct [(ALTFUNC_GROUPING_KEY, ExprNode (Var INT4OID 1)),
                 (ALTFUNC_GROUPING_KEY, ExprNode (Var INT4OID 1))]"
  by (simp add: built_device_columns_def build_custom_scan_tlist_def build_tlist_entry_def
      sortgroupref_at_def on_ok_def group_key_twice_def makeTargetEntry_def device_columns_def)

section \<open>The row-count partial state\<close>

lemma ExecEvalAnd_nulltests:
  "ExecEvalAnd (map (ExecEvalExpr env) (map NullTest es) @ rest) b =
     (if all_args_not_null env es then ExecEvalAnd rest b else Some 0)"
  by (induction es) (auto simp: all_args_not_null_def)

lemma make_altfunc_nrows_expr_value:
  assumes "\<And>f. aggfilter aggref = Some f \<Longrightarrow> exprType f = BOOLOID"
  shows "\<exists>e. make_altfunc_nrows_expr aggref = Inr e \<and> exprType e = INT8OID \<and>
             ExecEvalExpr env e =
               Some (if all_args_not_null env (args aggref) \<and> filter_passes env (aggfilter aggref)
                     then 1 else 0)"
proof (cases "aggfilter aggref")
  case None
  show ?thesis
  proof (cases "args aggref")
    case Nil
    with None show ?thesis
      by (simp add: make_altfunc_nrows_expr_def all_args_not_null_def filter_passes_def)
  next
    case (Cons a as)
    show ?thesis
    proof (cases as)
      case Nil
      with Cons None show ?thesis
        by (simp add: make_altfunc_nrows_expr_def make_expr_conditional_def
            all_args_not_null_def filter_passes_def)
    next
      case (Cons b bs)
      have "ExecEvalAnd (map (ExecEvalExpr env) (map NullTest (args aggref) @ [])) False =
              (if all_args_not_null env (args aggref) then Some 1 else Some 0)"
        by (simp only: map_append ExecEvalAnd_nulltests) simp
      with Cons \<open>args aggref = a # as\<close> None show ?thesis
        by (simp add: make_altfunc_nrows_expr_def make_expr_conditional_def filter_passes_def)
    qed
  qed
next
  case (Some f)
  then have bf: "exprType f = BOOLOID" using assms by simp
  show ?thesis
  proof (cases "args aggref")
    case Nil
    with Some bf show ?thesis
      by (auto simp: make_altfunc_nrows_expr_def make_expr_conditional_def
          all_args_not_null_def filter_passes_def split: option.splits)
  next
    case (Cons a as)
    have "ExecEvalAnd (map (ExecEvalExpr env) (map NullTest (args aggref) @ [f])) False =
            (if all_args_not_null env (args aggref)
             then ExecEvalAnd [ExecEvalExpr env f] False else Some 0)"
      by (simp only: map_append ExecEvalAnd_nulltests) simp
    with Cons Some show ?thesis
      by (auto simp: make_altfunc_nrows_expr_def make_expr_conditional_def filter_passes_def
          split: option.splits)
  qed
qed

text \<open>
  C7. For an aggregate call whose FILTER clause, if any, is boolean, the synthesized
  row-count expression is built without failure, has type int8 (so the forced type cast
  to the catalog's int8 leaves it unchanged) and evaluates on a row to 1 exactly when
  all arguments of the aggregate are non-null and the FILTER clause passes, and to 0
  otherwise. For COUNT(x) FILTER (WHERE p) the rows (x=1, p=true), (x=NULL, p=true),
  (x=2, p=false) give 1, 0 and 0: a row-count partial of 1.
\<close>

theorem nrows_expr_counts_qualifying_rows:
  "((\<forall>f. aggfilter aggref = Some f \<longrightarrow> exprType f = BOOLOID) \<longrightarrow>
      (\<exists>e. make_altfunc_nrows_expr aggref = Inr e \<and>
            make_expr_typecast sc e INT8OID = Inr e \<and>
            ExecEvalExpr env e =
              Some (if all_args_not_null env (args aggref) \<and>
                       filter_passes env (aggfilter aggref) then 1 else 0))) \<and>
   (\<exists>e. make_altfunc_nrows_expr count_x_filter_p = Inr e \<and>
         map (\<lambda>r. ExecEvalExpr r e) count_example_rows = [Some 1, Some 0, Some 0] \<and>
         sum_list (map (\<lambda>r. the (ExecEvalExpr r e)) count_example_rows) = 1)"
proof (intro conjI impI)
  assume a: "\<forall>f. aggfilter aggref = Some f \<longrightarrow> exprType f = BOOLOID"
  from make_altfunc_nrows_expr_value [of aggref env] a
  obtain e where e: "make_altfunc_nrows_expr aggref = Inr e" "exprType e = INT8OID"
    "ExecEvalExpr env e =
       Some (if all_args_not_null env (args aggref) \<and> filter_passes env (aggfilter aggref)
             then 1 else 0)"
    by blast
  have "make_expr_typecast sc e INT8OID = Inr e"
    using e(2) by (simp add: make_expr_typecast_def)
  with e show "\<exists>e. make_altfunc_nrows_expr aggref = Inr e \<and>
            make_expr_typecast sc e INT8OID = Inr e \<and>
            ExecEvalExpr env e =
              Some (if all_args_not_null env (args aggref) \<and>
                       filter_passes env (aggfilter aggref) then 1 else 0)"
    by blast
next
  show "\<exists>e. make_altfunc_nrows_expr count_x_filter_p = Inr e \<and>
         map (\<lambda>r. ExecEvalExpr r e) count_example_rows = [Some 1, Some 0, Some 0] \<and>
         sum_list (map (\<lambda>r. the (ExecEvalExpr r e)) count_example_rows) = 1"
    by (simp add: make_altfunc_nrows_expr_def make_expr_conditional_def count_x_filter_p_def
        count_example_rows_def example_row_def)
qed

theorem nrows_expr_counts_qualifying_rows_witness:
  "aggfilter count_x_filter_p = Some (Var BOOLOID 2) \<and>
   exprType (Var BOOLOID 2) = BOOLOID \<and>
   (\<exists>e. make_altfunc_nrows_expr count_x_filter_p = Inr e \<and>
         ExecEvalExpr (example_row (Some 1) (Some 1)) e = Some 1)"
proof -
  have f: "aggfilter count_x_filter_p = Some (Var BOOLOID 2)"
    by (simp add: count_x_filter_p_def)
  then have h: "\<forall>f. aggfilter count_x_filter_p = Some f \<longrightarrow> exprType f = BOOLOID"
    by simp
  have "all_args_not_null (example_row (Some 1) (Some 1)) (args count_x_filter_p) \<and>
        filter_passes (example_row (Some 1) (Some 1)) (aggfilter count_x_filter_p)"
    by (simp add: all_args_not_null_def filter_passes_def count_x_filter_p_def example_row_def)
  with h f nrows_expr_counts_qualifying_rows
         [of count_x_filter_p empty_syscache "example_row (Some 1) (Some 1)"]
  show ?thesis by auto
qed

section \<open>The value projected for a missing input\<close>

text \<open>
  C8. For a PARTIAL-MAX column a NULL input should leave the minimum sentinel of the
  type in the destination slot, and for a PARTIAL-MIN column the maximum sentinel. The
  generator takes the literals the other way round: for the int4 column of MAX(x) the
  generated code stores INT_MAX on a NULL input, and for MIN(x) it stores INT_MIN.
\<close>

theorem projection_stores_wrong_sentinel:
  "projected (gpupreagg_codegen_projection_column only_int4 no_expression_code int4_column
                ALTFUNC_EXPR_PMAX) None = Some (True, StoredLiteral ''INT_MAX'') \<and>
   projected (gpupreagg_codegen_projection_column only_int4 no_expression_code int4_column
                ALTFUNC_EXPR_PMIN) None = Some (True, StoredLiteral ''INT_MIN'') \<and>
   max_const int4_devtype = Some ''INT_MAX'' \<and> min_const int4_devtype = Some ''INT_MIN''"
  by (simp add: projected_def gpupreagg_codegen_projection_column_def only_int4_def
      int4_devtype_def int4_column_def makeTargetEntry_def null_const_value_of_def
      run_proj_column_def)

section \<open>Catalog: the role of the argument of min\<close>

text \<open>
  C9. Every catalog entry named min should give its argument the partial-minimum role
  (PMIN), as the comment above the entries says (MIN(PMIN(X))). The entry for the money
  type does not: looking up min over money returns an entry whose only argument
  expression is the partial-maximum role (PMAX).
\<close>

theorem aggfunc_catalog_min_money_is_pmax:
  "map_option altfn_argexprs
     (aggfunc_catalog_scan aggfunc_catalog
        \<lparr>proname = ''min'', pronargs = 1, proargtypes = [CASHOID]\<rparr>)
   = Some [ALTFUNC_EXPR_PMAX]"
  by (simp add: aggfunc_catalog_def)


section \<open>Task construction on a missing input\<close>

text \<open>
  C10. gpupreagg_create_task reads pds_in->kds.nitems before anything else, so on a NULL
  input it fails whatever its other arguments are, while on an input in row format
  (with a live shared state) it returns a task. gpupreagg_next_task nevertheless calls
  it with a NULL input: when the outer plan yields no tuple, and when the scan of the
  relation yields no chunk.
\<close>

theorem create_task_requires_input:
  "gpupreagg_create_task L gpas s None is_last = Inl (NullDereference ''pds_in->kds.nitems'') \<and>
   (format (kds pin) \<noteq> KDS_FORMAT_BLOCK \<and> sint (refcnt s) > 0 \<longrightarrow>
      (\<exists>g s'. gpupreagg_create_task L gpas s (Some pin) is_last = Inr (g, s'))) \<and>
   (\<not> ss_currentRelation gpas \<and> outer_tuples gpas = [] \<longrightarrow>
      gpupreagg_next_task L new_store insert_tuple gpas s =
        Inl (NullDereference ''pds_in->kds.nitems'')) \<and>
   (ss_currentRelation gpas \<and> outer_pds gpas = None \<and> scan_chunks gpas = [] \<longrightarrow>
      gpupreagg_next_task L new_store insert_tuple gpas s =
        Inl (NullDereference ''pds_in->kds.nitems''))"
  by (simp add: gpupreagg_create_task_def gpupreagg_next_task_def
      get_gpupreagg_shared_state_def on_ok_def Let_def)

theorem create_task_requires_input_witness:
  "\<not> ss_currentRelation empty_outer_plan \<and> outer_tuples empty_outer_plan = [] \<and>
   gpupreagg_next_task example_layout empty_row_store insert_any empty_outer_plan example_sstate =
     Inl (NullDereference ''pds_in->kds.nitems'') \<and>
   ss_currentRelation empty_relation \<and> outer_pds empty_relation = None \<and>
   scan_chunks empty_relation = [] \<and>
   gpupreagg_next_task example_layout empty_row_store insert_any empty_relation example_sstate =
     Inl (NullDereference ''pds_in->kds.nitems'') \<and>
   format (kds example_input) \<noteq> KDS_FORMAT_BLOCK \<and> sint (refcnt example_sstate) > 0 \<and>
   (\<exists>g s'. gpupreagg_create_task example_layout empty_outer_plan example_sstate
              (Some example_input) True = Inr (g, s'))"
proof -
  have a: "\<not> ss_currentRelation empty_outer_plan \<and> outer_tuples empty_outer_plan = []"
    by (simp add: empty_outer_plan_def)
  have b: "ss_currentRelation empty_relation \<and> outer_pds empty_relation = None \<and>
           scan_chunks empty_relation = []"
    by (simp add: empty_relation_def empty_outer_plan_def)
  have c: "format (kds example_input) \<noteq> KDS_FORMAT_BLOCK \<and> sint (refcnt example_sstate) > 0"
    by (simp add: example_input_def example_sstate_def zeroed_kds_def)
  from a b c
    create_task_requires_input [of example_layout empty_outer_plan example_sstate True
      example_input empty_row_store insert_any]
    create_task_requires_input [of example_layout empty_relation example_sstate True
      example_input empty_row_store insert_any]
  show ?thesis by simp
qed

end
